theory Spec2Isabelle
  imports Main "HOL-Library.AList"
begin

section \<open>JavaScript values\<close>

text \<open>
  The values that flow through \<^verbatim>\<open>index.js\<close>: query parameters, option objects, token
  sets, profiles, failures. An object, of whatever class, is its list of own properties
  in insertion order (the first binding of a name is the one that is read); a failure
  that a library hands over with properties such as \<^verbatim>\<open>statusCode\<close> and \<^verbatim>\<open>data\<close> is
  such an object. \<open>New_Error args\<close> is the
  object built by \<^verbatim>\<open>new Error(args)\<close> and \<open>New_TypeError args\<close> the one built by
  \<^verbatim>\<open>new TypeError(args)\<close>; \<open>Thrown_TypeError\<close> is the TypeError the engine throws
  when a property of \<^verbatim>\<open>undefined\<close> or \<^verbatim>\<open>null\<close> is read, and \<open>Thrown_SyntaxError\<close>
  the one \<^verbatim>\<open>JSON.parse\<close> throws. Numbers are the integers and NaN; every other double
  behaves like a non-zero integer in the operations the program applies (truthiness and
  strict comparison with a string).
\<close>

datatype jsval =
    Undefined
  | Null
  | Boolean bool
  | Number int
  | NaN
  | Str string
  | Array "jsval list"
  | Object "(string \<times> jsval) list"
  | New_Error "jsval list"
  | New_TypeError "jsval list"
  | Thrown_TypeError
  | Thrown_SyntaxError

text \<open>What \<^verbatim>\<open>if (v)\<close>, \<^verbatim>\<open>!v\<close>, \<^verbatim>\<open>v || w\<close> and \<^verbatim>\<open>v && w\<close> test.\<close>

fun truthy :: "jsval \<Rightarrow> bool" where
  "truthy Undefined = False"
| "truthy Null = False"
| "truthy (Boolean b) = b"
| "truthy (Number n) = (n \<noteq> 0)"
| "truthy NaN = False"
| "truthy (Str s) = (s \<noteq> [])"
| "truthy (Array xs) = True"
| "truthy (Object ps) = True"
| "truthy (New_Error args) = True"
| "truthy (New_TypeError args) = True"
| "truthy Thrown_TypeError = True"
| "truthy Thrown_SyntaxError = True"

text \<open>\<^verbatim>\<open>a || b\<close> on two values that are already evaluated.\<close>

definition or_else :: "jsval \<Rightarrow> jsval \<Rightarrow> jsval" where
  "or_else a b = (if truthy a then a else b)"

text \<open>
  A computation that may throw: \<open>Inl\<close> carries the thrown value. \<open>bindE\<close> sequences two
  of them, the second not being run when the first throws.
\<close>

definition bindE :: "jsval + 'a \<Rightarrow> ('a \<Rightarrow> jsval + 'b) \<Rightarrow> jsval + 'b" where
  "bindE m f = (case m of Inl ex \<Rightarrow> Inl ex | Inr x \<Rightarrow> f x)"

text \<open>
  \<^verbatim>\<open>v.k\<close> for the property names that occur in the program (\<^verbatim>\<open>error\<close>,
  \<^verbatim>\<open>error_description\<close>, \<^verbatim>\<open>error_uri\<close>, \<^verbatim>\<open>code\<close>, \<^verbatim>\<open>scope\<close>, \<^verbatim>\<open>accessType\<close>,
  \<^verbatim>\<open>access_type\<close>, \<^verbatim>\<open>access_token\<close>, \<^verbatim>\<open>refresh_token\<close>, \<^verbatim>\<open>statusCode\<close>, \<^verbatim>\<open>data\<close>,
  \<^verbatim>\<open>clientID\<close>, \<^verbatim>\<open>clientSecret\<close>, \<^verbatim>\<open>redirectURL\<close>). Reading from \<^verbatim>\<open>undefined\<close> or
  \<^verbatim>\<open>null\<close> throws; an object yields its binding or \<^verbatim>\<open>undefined\<close>; none of these names
  is a property of a primitive, of an array or of a freshly built error, which yield
  \<^verbatim>\<open>undefined\<close>.
\<close>

definition own_prop :: "(string \<times> jsval) list \<Rightarrow> string \<Rightarrow> jsval" where
  "own_prop ps k = (case map_of ps k of None \<Rightarrow> Undefined | Some v \<Rightarrow> v)"

fun read_prop :: "jsval \<Rightarrow> string \<Rightarrow> jsval + jsval" where
  "read_prop Undefined k = Inl Thrown_TypeError"
| "read_prop Null k = Inl Thrown_TypeError"
| "read_prop (Object ps) k = Inr (own_prop ps k)"
| "read_prop v k = Inr Undefined"

text \<open>\<^verbatim>\<open>v.k1 || v.k2\<close> and \<^verbatim>\<open>v.k1 && v.k2\<close>: the second read happens only when needed.\<close>

definition prop_or :: "jsval \<Rightarrow> string \<Rightarrow> string \<Rightarrow> jsval + jsval" where
  "prop_or v k1 k2 = bindE (read_prop v k1) (\<lambda>a. if truthy a then Inr a else read_prop v k2)"

definition prop_and :: "jsval \<Rightarrow> string \<Rightarrow> string \<Rightarrow> jsval + jsval" where
  "prop_and v k1 k2 = bindE (read_prop v k1) (\<lambda>a. if truthy a then read_prop v k2 else Inr a)"

text \<open>
  The values are data: none of them is a function. \<^verbatim>\<open>new Error(m, ...)\<close> converts
  \<open>m\<close> to a string unless it is \<^verbatim>\<open>undefined\<close>. The conversion returns for every
  primitive and every error object; for an array it joins the conversions of the
  elements; for an object it calls the inherited \<^verbatim>\<open>toString\<close>, unless the object has
  a property \<^verbatim>\<open>toString\<close> of its own: that one is not callable, the inherited
  \<^verbatim>\<open>valueOf\<close> answers with the object itself, and the conversion throws a TypeError.
  \<open>convertible v\<close> holds when the conversion of \<open>v\<close> returns.
\<close>

fun convertible :: "jsval \<Rightarrow> bool" where
  "convertible (Array xs) = list_all convertible xs"
| "convertible (Object ps) = (map_of ps ''toString'' = None)"
| "convertible v = True"

text \<open>
  \<^verbatim>\<open>new Error(args)\<close>: the error object, or the TypeError of a first argument that
  does not convert.
\<close>

fun new_Error :: "jsval list \<Rightarrow> jsval + jsval" where
  "new_Error [] = Inr (New_Error [])"
| "new_Error (m # rest) =
     (if m = Undefined \<or> convertible m then Inr (New_Error (m # rest))
      else Inl Thrown_TypeError)"

text \<open>
  The text of the conversion, for the primitives whose text is fixed by their value;
  \<open>None\<close> for numbers (whose text depends on the formatting of doubles) and for the
  other values. \<open>Error_message args\<close> is the \<^verbatim>\<open>message\<close> of \<^verbatim>\<open>new Error(args)\<close>: the
  converted first argument, the empty string when it is \<^verbatim>\<open>undefined\<close> or not given.
\<close>

fun ToString :: "jsval \<Rightarrow> string option" where
  "ToString Undefined = Some ''undefined''"
| "ToString Null = Some ''null''"
| "ToString (Boolean b) = Some (if b then ''true'' else ''false'')"
| "ToString (Str s) = Some s"
| "ToString v = None"

fun Error_message :: "jsval list \<Rightarrow> string option" where
  "Error_message [] = Some []"
| "Error_message (m # rest) = (if m = Undefined then Some [] else ToString m)"

section \<open>The request, the collaborators and the strategy\<close>

text \<open>
  Of the request the program reads \<^verbatim>\<open>req.query\<close> only (\<open>Undefined\<close> for a request with
  no query object).
\<close>

record request =
  query :: jsval

text \<open>
  The verify callback is a function value: its declared parameter count
  (\<^verbatim>\<open>_verify.length\<close>) and what a call of it does. An argument is the request, a
  value, or the \<^verbatim>\<open>verified\<close> closure (\<^verbatim>\<open>done\<close>). A call makes some calls of
  \<^verbatim>\<open>done(err, user, info)\<close> before it completes, then returns or throws, and may make
  further calls of \<^verbatim>\<open>done\<close> later, from its own asynchronous work.
\<close>

datatype verify_arg = ArgReq request | ArgVal jsval | ArgDone

datatype completion = Returns | Throws jsval

datatype verify_run =
  Run "(jsval \<times> jsval \<times> jsval) list" completion "(jsval \<times> jsval \<times> jsval) list"

record verify_fn =
  fn_length :: nat
  fn_body :: "verify_arg list \<Rightarrow> verify_run"

text \<open>
  The OAuth2 client built by \<^verbatim>\<open>new google.auth.OAuth2(clientID, clientSecret,
  redirectURL)\<close>: its three constructor arguments and the credentials last given to
  \<^verbatim>\<open>setCredentials\<close> (\<open>None\<close> before the first call).
\<close>

record oauth2_client =
  clientID :: jsval
  clientSecret :: jsval
  redirectURL :: jsval
  credentials :: "jsval option"

text \<open>
  The strategy object. \<open>priv_verify\<close>, \<open>priv_scope\<close> and \<open>priv_passReqToCallback\<close> are
  the properties \<^verbatim>\<open>_verify\<close>, \<^verbatim>\<open>_scope\<close> and \<^verbatim>\<open>_passReqToCallback\<close>; a property
  that was never assigned reads \<open>Undefined\<close>.
\<close>

record strategy =
  name :: jsval
  priv_verify :: verify_fn
  oauth2Client :: oauth2_client
  priv_scope :: jsval
  priv_passReqToCallback :: jsval

text \<open>
  What the program does not contain: the behaviour of the OAuth2 client, of the profile
  endpoint and of \<^verbatim>\<open>JSON.parse\<close>. \<open>getToken\<close> and \<open>userinfo_get\<close> give the calls
  \<open>(err, result)\<close> that the collaborator makes of the callback it was handed, in order
  (none when it never answers, one when it behaves). \<open>JSON_parse\<close> is \<open>None\<close> when
  \<^verbatim>\<open>JSON.parse\<close> throws. The collaborators and the four actions of the framework
  are taken to return to the program: one that throws into it is not described.
\<close>

record env =
  generateAuthUrl :: "oauth2_client \<Rightarrow> jsval \<Rightarrow> jsval"
  getToken :: "oauth2_client \<Rightarrow> jsval \<Rightarrow> (jsval \<times> jsval) list"
  userinfo_get :: "oauth2_client \<Rightarrow> (jsval \<times> jsval) list"
  JSON_parse :: "jsval \<Rightarrow> jsval option"

text \<open>
  What an invocation makes happen, in order: the four actions of the framework
  (\<^verbatim>\<open>success\<close>, \<^verbatim>\<open>fail\<close>, \<^verbatim>\<open>error\<close>, \<^verbatim>\<open>redirect\<close>), the calls to the collaborators
  and to the verify callback, and an exception that leaves the program uncaught.
\<close>

datatype event =
    Success jsval jsval
  | Fail jsval
  | Error jsval
  | Redirect jsval
  | GetToken jsval
  | SetCredentials jsval
  | UserinfoGet oauth2_client
  | Verify "verify_arg list"
  | Uncaught jsval

section \<open>The constructor\<close>

text \<open>
  \<^verbatim>\<open>function GoogleAPIsStrategy(options, verify)\<close>. The first argument is a function or
  a value; the second is a function or is not given.
\<close>

datatype ctor_arg = Fn verify_fn | Val jsval

definition GoogleAPIsStrategy :: "ctor_arg \<Rightarrow> verify_fn option \<Rightarrow> jsval + strategy" where
  "GoogleAPIsStrategy options0 verify0 =
     (let verify = (case options0 of Fn f \<Rightarrow> Some f | Val v \<Rightarrow> verify0);
          options1 = (case options0 of Fn f \<Rightarrow> Undefined | Val v \<Rightarrow> v);
          options = or_else options1 (Object [])
      in case verify of
           None \<Rightarrow> Inl (New_TypeError [Str ''GoogleAPIsStrategy requires a verify callback''])
         | Some vf \<Rightarrow>
             bindE (read_prop options ''clientID'') (\<lambda>cid.
             if \<not> truthy cid
             then Inl (New_TypeError [Str ''GoogleAPIsStrategy requires a clientID option''])
             else bindE (read_prop options ''clientSecret'') (\<lambda>csec.
             if \<not> truthy csec
             then Inl (New_TypeError [Str ''GoogleAPIsStrategy requires a clientSecret option''])
             else bindE (read_prop options ''redirectURL'') (\<lambda>rurl.
             if \<not> truthy rurl
             then Inl (New_TypeError [Str ''GoogleAPIsStrategy requires a redirectURL option''])
             else Inr \<lparr> name = Str ''googleapis'',
                        priv_verify = vf,
                        oauth2Client = \<lparr> clientID = cid, clientSecret = csec,
                                         redirectURL = rurl, credentials = None \<rparr>,
                        priv_scope = Undefined,
                        priv_passReqToCallback = Undefined \<rparr>))))"

section \<open>Authorization parameters and error normalisation\<close>

text \<open>\<^verbatim>\<open>GoogleAPIsStrategy.prototype.authorizationParams\<close>.\<close>

definition authorizationParams :: "strategy \<Rightarrow> jsval \<Rightarrow> jsval + jsval" where
  "authorizationParams self options =
     bindE (read_prop options ''scope'') (\<lambda>s.
     let scope = or_else s (priv_scope self);
         params = (if truthy scope then AList.update ''scope'' scope [] else [])
     in bindE (prop_or options ''accessType'' ''access_type'') (\<lambda>c.
        if truthy c
        then bindE (prop_or options ''accessType'' ''access_type'') (\<lambda>a.
               Inr (Object (AList.update ''access_type'' a params)))
        else Inr (Object params)))"

text \<open>\<^verbatim>\<open>GoogleAPIsStrategy.prototype.parseErrorResponse\<close>.\<close>

definition parseErrorResponse :: "env \<Rightarrow> jsval \<Rightarrow> jsval \<Rightarrow> jsval + jsval" where
  "parseErrorResponse E body status =
     (case JSON_parse E body of
        None \<Rightarrow> Inl Thrown_SyntaxError
      | Some json \<Rightarrow>
          bindE (read_prop json ''error'') (\<lambda>e.
          if truthy e
          then bindE (read_prop json ''error_description'') (\<lambda>d.
               bindE (read_prop json ''error'') (\<lambda>c.
               bindE (read_prop json ''error_uri'') (\<lambda>u.
               new_Error [d, c, u])))
          else Inr Null))"

text \<open>
  \<^verbatim>\<open>GoogleAPIsStrategy.prototype._createOAuthError\<close>. The \<^verbatim>\<open>try\<close> swallows whatever
  \<^verbatim>\<open>parseErrorResponse\<close> throws and leaves \<^verbatim>\<open>e\<close> undefined; the generic error is
  built outside the \<^verbatim>\<open>try\<close>.
\<close>

definition createOAuthError :: "env \<Rightarrow> jsval \<Rightarrow> jsval \<Rightarrow> jsval + jsval" where
  "createOAuthError E message err =
     bindE (prop_and err ''statusCode'' ''data'') (\<lambda>c.
     let e = (if truthy c
              then (case bindE (read_prop err ''data'') (\<lambda>d.
                         bindE (read_prop err ''statusCode'') (\<lambda>s.
                         parseErrorResponse E d s)) of
                      Inl ex \<Rightarrow> Undefined
                    | Inr v \<Rightarrow> v)
              else Undefined)
     in if \<not> truthy e then new_Error [message, err] else Inr e)"

section \<open>authenticate\<close>

text \<open>The closure \<^verbatim>\<open>verified(err, user, info)\<close> handed to the verify callback.\<close>

fun verified :: "jsval \<times> jsval \<times> jsval \<Rightarrow> event list" where
  "verified (err, user, info) =
     (if truthy err then [Error err]
      else if \<not> truthy user then [Fail info]
      else [Success user info])"

text \<open>The argument list that the dispatch on \<^verbatim>\<open>_passReqToCallback\<close> and the arity builds.\<close>

definition verify_args :: "strategy \<Rightarrow> request \<Rightarrow> jsval \<Rightarrow> jsval \<Rightarrow> jsval \<Rightarrow> verify_arg list" where
  "verify_args self req accessToken refreshToken profile =
     (if truthy (priv_passReqToCallback self)
      then (let arity = fn_length (priv_verify self)
            in if arity = 6
               then [ArgReq req, ArgVal accessToken, ArgVal refreshToken, ArgVal (Object []),
                     ArgVal profile, ArgDone]
               else [ArgReq req, ArgVal accessToken, ArgVal refreshToken, ArgVal profile,
                     ArgDone])
      else (let arity = fn_length (priv_verify self)
            in if arity = 5
               then [ArgVal accessToken, ArgVal refreshToken, ArgVal (Object []),
                     ArgVal profile, ArgDone]
               else [ArgVal accessToken, ArgVal refreshToken, ArgVal profile, ArgDone]))"

text \<open>
  The callback given to \<^verbatim>\<open>oauth2.userinfo.get\<close>, at one call \<open>(err, profile)\<close> of it:
  the call of the verify callback inside the \<^verbatim>\<open>try\<close>, the outcomes of the calls of
  \<^verbatim>\<open>done\<close> made during it, the \<^verbatim>\<open>catch\<close>, and the outcomes of later calls of \<^verbatim>\<open>done\<close>.
\<close>

definition on_profile :: "strategy \<Rightarrow> request \<Rightarrow> jsval \<Rightarrow> jsval \<Rightarrow> jsval \<times> jsval \<Rightarrow> event list" where
  "on_profile self req accessToken refreshToken r =
     (case r of (err, profile) \<Rightarrow>
        if truthy err then [Error err]
        else (let args = verify_args self req accessToken refreshToken profile
              in case fn_body (priv_verify self) args of
                   Run during c later \<Rightarrow>
                     Verify args # concat (map verified during)
                       @ (case c of Returns \<Rightarrow> [] | Throws ex \<Rightarrow> [Error ex])
                       @ concat (map verified later)))"

text \<open>
  The callback given to \<^verbatim>\<open>getToken\<close>, at one call \<open>(err, tokens)\<close> of it. It returns
  the strategy too, whose client \<^verbatim>\<open>setCredentials\<close> has changed.
\<close>

definition on_token :: "env \<Rightarrow> request \<Rightarrow> strategy \<Rightarrow> jsval \<times> jsval \<Rightarrow> event list \<times> strategy" where
  "on_token E req self r =
     (case r of (err, tokens) \<Rightarrow>
        if truthy err
        then (case createOAuthError E (Str ''Failed to obtain access token'') err of
                Inl ex \<Rightarrow> ([Uncaught ex], self)
              | Inr e \<Rightarrow> ([Error e], self))
        else (case read_prop tokens ''access_token'' of
                Inl ex \<Rightarrow> ([Uncaught ex], self)
              | Inr accessToken \<Rightarrow>
                  (case read_prop tokens ''refresh_token'' of
                     Inl ex \<Rightarrow> ([Uncaught ex], self)
                   | Inr rt \<Rightarrow>
                       (let refreshToken = or_else rt Null;
                            client = (oauth2Client self)\<lparr> credentials := Some tokens \<rparr>;
                            self' = self\<lparr> oauth2Client := client \<rparr>
                        in (SetCredentials tokens # UserinfoGet client
                              # concat (map (on_profile self' req accessToken refreshToken)
                                          (userinfo_get E client)),
                            self')))))"

text \<open>The calls a collaborator makes of a callback, one after the other.\<close>

fun run_callbacks ::
  "('s \<Rightarrow> 'a \<Rightarrow> event list \<times> 's) \<Rightarrow> 's \<Rightarrow> 'a list \<Rightarrow> event list \<times> 's" where
  "run_callbacks k s [] = ([], s)"
| "run_callbacks k s (x # xs) =
     (case k s x of (ev, s') \<Rightarrow>
        (case run_callbacks k s' xs of (ev', s'') \<Rightarrow> (ev @ ev', s'')))"

text \<open>
  \<^verbatim>\<open>req.query && req.query.k\<close>.
\<close>

definition query_field :: "request \<Rightarrow> string \<Rightarrow> jsval + jsval" where
  "query_field req k = (if truthy (query req) then read_prop (query req) k else Inr (query req))"

text \<open>
  \<^verbatim>\<open>GoogleAPIsStrategy.prototype.authenticate\<close>: the events of the invocation and the
  strategy it leaves. An exception that leaves \<^verbatim>\<open>authenticate\<close> itself is the event
  \<open>Uncaught\<close>.
\<close>

definition authenticate_body :: "env \<Rightarrow> strategy \<Rightarrow> request \<Rightarrow> jsval \<Rightarrow> jsval + event list \<times> strategy" where
  "authenticate_body E self req options0 =
     (let options = or_else options0 (Object [])
      in bindE (query_field req ''error'') (\<lambda>qe.
         if truthy qe
         then bindE (read_prop (query req) ''error'') (\<lambda>e.
              if e = Str ''access_denied''
              then bindE (read_prop (query req) ''error_description'') (\<lambda>d.
                   Inr ([Fail (Object [(''message'', d)])], self))
              else bindE (read_prop (query req) ''error_description'') (\<lambda>d.
                   bindE (read_prop (query req) ''error'') (\<lambda>c.
                   bindE (read_prop (query req) ''error_uri'') (\<lambda>u.
                   bindE (new_Error [d, c, u]) (\<lambda>built.
                   Inr ([Error built], self))))))
         else bindE (query_field req ''code'') (\<lambda>qc.
              if truthy qc
              then bindE (read_prop (query req) ''code'') (\<lambda>code.
                   case run_callbacks (on_token E req) self
                          (getToken E (oauth2Client self) code) of
                     (ev, self') \<Rightarrow> Inr (GetToken code # ev, self'))
              else bindE (authorizationParams self options) (\<lambda>params.
                   let location = generateAuthUrl E (oauth2Client self) params
                   in Inr ([Redirect location], self)))))"

definition authenticate :: "env \<Rightarrow> strategy \<Rightarrow> request \<Rightarrow> jsval \<Rightarrow> event list \<times> strategy" where
  "authenticate E self req options0 =
     (case authenticate_body E self req options0 of
        Inl ex \<Rightarrow> ([Uncaught ex], self)
      | Inr r \<Rightarrow> r)"

text \<open>
  The strategy after a history of invocations, each with its own collaborators, request
  and options.
\<close>

fun after_invocations :: "strategy \<Rightarrow> (env \<times> request \<times> jsval) list \<Rightarrow> strategy" where
  "after_invocations s [] = s"
| "after_invocations s (i # rest) =
     (case i of (E, req, options) \<Rightarrow>
        after_invocations (snd (authenticate E s req options)) rest)"

section \<open>Notions the properties are stated with\<close>

text \<open>
  \<open>field v k\<close> is the value that \<^verbatim>\<open>v.k\<close> yields, \<open>Undefined\<close> where there is none.
  \<open>has_field v k\<close> holds when \<open>v\<close> is an object with a property \<open>k\<close> of its own.
\<close>

definition field :: "jsval \<Rightarrow> string \<Rightarrow> jsval" where
  "field v k = (case read_prop v k of Inl ex \<Rightarrow> Undefined | Inr x \<Rightarrow> x)"

definition has_field :: "jsval \<Rightarrow> string \<Rightarrow> bool" where
  "has_field v k = (case v of Object ps \<Rightarrow> k \<in> fst ` set ps | _ \<Rightarrow> False)"

text \<open>
  The outcomes \<^verbatim>\<open>success\<close>, \<^verbatim>\<open>fail\<close> and \<^verbatim>\<open>error\<close>; the terminal actions, which are
  the outcomes and \<^verbatim>\<open>redirect\<close>; the calls of the verify callback.
\<close>

fun is_outcome :: "event \<Rightarrow> bool" where
  "is_outcome (Success user info) = True"
| "is_outcome (Fail challenge) = True"
| "is_outcome (Error err) = True"
| "is_outcome ev = False"

fun is_terminal :: "event \<Rightarrow> bool" where
  "is_terminal (Redirect location) = True"
| "is_terminal ev = is_outcome ev"

fun is_verify_call :: "event \<Rightarrow> bool" where
  "is_verify_call (Verify args) = True"
| "is_verify_call ev = False"

fun is_uncaught :: "event \<Rightarrow> bool" where
  "is_uncaught (Uncaught ex) = True"
| "is_uncaught ev = False"

text \<open>
  A verify callback that keeps its contract: it calls \<^verbatim>\<open>done\<close> exactly once and
  returns, or it throws without having called \<^verbatim>\<open>done\<close>.
\<close>

fun calls_done_once :: "verify_run \<Rightarrow> bool" where
  "calls_done_once (Run during Returns later) = (length during + length later = 1)"
| "calls_done_once (Run during (Throws ex) later) = (during = [] \<and> later = [])"

text \<open>
  A token set is a value other than \<^verbatim>\<open>undefined\<close> and \<^verbatim>\<open>null\<close>; so is a failure.
\<close>

definition nullish :: "jsval \<Rightarrow> bool" where
  "nullish v = (v = Undefined \<or> v = Null)"

section \<open>Concrete collaborators, callbacks and strategies\<close>

definition demo_payload :: string where
  "demo_payload =
     [CHR ''{'', CHR 0x22] @ ''error'' @ [CHR 0x22, CHR '':'', CHR 0x22] @ ''invalid_grant''
       @ [CHR 0x22, CHR '','', CHR 0x22] @ ''error_description'' @ [CHR 0x22, CHR '':'', CHR 0x22]
       @ ''bad code'' @ [CHR 0x22, CHR ''}'']"

definition demo_payload_empty_error :: string where
  "demo_payload_empty_error =
     [CHR ''{'', CHR 0x22] @ ''error'' @ [CHR 0x22, CHR '':'', CHR 0x22, CHR 0x22, CHR '','', CHR 0x22]
       @ ''error_description'' @ [CHR 0x22, CHR '':'', CHR 0x22]
       @ ''bad code'' @ [CHR 0x22, CHR ''}'']"

definition demo_payload_object_description :: string where
  "demo_payload_object_description =
     [CHR ''{'', CHR 0x22] @ ''error'' @ [CHR 0x22, CHR '':'', CHR 0x22] @ ''invalid_grant''
       @ [CHR 0x22, CHR '','', CHR 0x22] @ ''error_description'' @ [CHR 0x22, CHR '':'', CHR ''{'',
          CHR 0x22] @ ''toString'' @ [CHR 0x22, CHR '':'', CHR ''1'', CHR ''}'', CHR ''}'']"

text \<open>
  An object that does not convert to a string: \<^verbatim>\<open>{toString: 1}\<close>.
\<close>

definition demo_unconvertible :: jsval where
  "demo_unconvertible = Object [(''toString'', Number 1)]"

text \<open>
  \<^verbatim>\<open>JSON.parse\<close> on the three payloads above and on a text that is not JSON.
\<close>

definition demo_parse :: "jsval \<Rightarrow> jsval option" where
  "demo_parse v =
     (if v = Str demo_payload
      then Some (Object [(''error'', Str ''invalid_grant''),
                         (''error_description'', Str ''bad code'')])
      else if v = Str demo_payload_empty_error
      then Some (Object [(''error'', Str []), (''error_description'', Str ''bad code'')])
      else if v = Str demo_payload_object_description
      then Some (Object [(''error'', Str ''invalid_grant''),
                         (''error_description'', demo_unconvertible)])
      else None)"

definition demo_url :: "oauth2_client \<Rightarrow> jsval \<Rightarrow> jsval" where
  "demo_url c params =
     (case params of
        Object ps \<Rightarrow>
          Str (''https://accounts.example/auth?''
                 @ concat (map (\<lambda>(k, v). k @ ''='' @ (case v of Str s \<Rightarrow> s | _ \<Rightarrow> []) @ ''&'') ps))
      | _ \<Rightarrow> Str ''https://accounts.example/auth'')"

definition demo_profile :: jsval where
  "demo_profile = Object [(''email'', Str ''ada@example.org'')]"

definition demo_user :: jsval where
  "demo_user = Object [(''id'', Number 7)]"

definition demo_failure :: jsval where
  "demo_failure = Object [(''statusCode'', Number 400), (''data'', Str demo_payload)]"

text \<open>
  Collaborators that answer once and succeed; a client whose token exchange fails; a
  client that never answers.
\<close>

definition demo_env :: env where
  "demo_env = \<lparr> generateAuthUrl = demo_url,
                getToken = (\<lambda>c code. [(Null, Object [(''access_token'', Str ''AT1'')])]),
                userinfo_get = (\<lambda>c. [(Null, demo_profile)]),
                JSON_parse = demo_parse \<rparr>"

definition demo_env_failing :: env where
  "demo_env_failing = demo_env\<lparr> getToken := (\<lambda>c code. [(demo_failure, Undefined)]) \<rparr>"

definition demo_env_silent :: env where
  "demo_env_silent = demo_env\<lparr> getToken := (\<lambda>c code. []) \<rparr>"

text \<open>
  A client that reports success and hands over no token set; a profile endpoint that
  never answers.
\<close>

definition demo_env_no_tokens :: env where
  "demo_env_no_tokens = demo_env\<lparr> getToken := (\<lambda>c code. [(Null, Undefined)]) \<rparr>"

definition demo_env_no_profile :: env where
  "demo_env_no_profile = demo_env\<lparr> userinfo_get := (\<lambda>c. []) \<rparr>"

text \<open>
  Verify callbacks: one that accepts the user, one with five parameters that finds no
  user, one that calls \<^verbatim>\<open>done\<close> and then throws, one that throws at once.
\<close>

definition demo_verify :: verify_fn where
  "demo_verify = \<lparr> fn_length = 4,
                   fn_body = (\<lambda>args. Run [(Null, demo_user, Undefined)] Returns []) \<rparr>"

definition demo_verify_no_match :: verify_fn where
  "demo_verify_no_match =
     \<lparr> fn_length = 5,
       fn_body = (\<lambda>args. Run [(Null, Null, Object [(''message'', Str ''no match'')])] Returns []) \<rparr>"

definition demo_verify_done_then_throw :: verify_fn where
  "demo_verify_done_then_throw =
     \<lparr> fn_length = 4,
       fn_body = (\<lambda>args. Run [(Null, demo_user, Undefined)] (Throws (Str ''boom'')) []) \<rparr>"

definition demo_verify_throws :: verify_fn where
  "demo_verify_throws = \<lparr> fn_length = 4, fn_body = (\<lambda>args. Run [] (Throws (Str ''boom'')) []) \<rparr>"

definition demo_options :: jsval where
  "demo_options =
     Object [(''clientID'', Str ''id''), (''clientSecret'', Str ''secret''),
             (''redirectURL'', Str ''https://app.example/cb''), (''scope'', Str ''email'')]"

definition demo_client :: oauth2_client where
  "demo_client = \<lparr> clientID = Str ''id'', clientSecret = Str ''secret'',
                   redirectURL = Str ''https://app.example/cb'', credentials = None \<rparr>"

definition demo_strategy :: strategy where
  "demo_strategy = \<lparr> name = Str ''googleapis'', priv_verify = demo_verify,
                     oauth2Client = demo_client, priv_scope = Undefined,
                     priv_passReqToCallback = Undefined \<rparr>"

definition demo_request :: "(string \<times> jsval) list \<Rightarrow> request" where
  "demo_request ps = \<lparr> query = Object ps \<rparr>"

section \<open>Basic facts\<close>

lemma bindE_Inl [simp]: "bindE (Inl ex) f = Inl ex"
  by (simp add: bindE_def)

lemma bindE_Inr [simp]: "bindE (Inr x) f = f x"
  by (simp add: bindE_def)

lemma truthy_not_nullish: "truthy v \<Longrightarrow> \<not> nullish v"
  by (cases v) (simp_all add: nullish_def)

lemma read_prop_field: "\<not> nullish v \<Longrightarrow> read_prop v k = Inr (field v k)"
  by (cases v) (simp_all add: nullish_def field_def)

lemma field_nullish [simp]: "field Undefined k = Undefined" "field Null k = Undefined"
  by (simp_all add: field_def)

lemma field_Object [simp]: "field (Object ps) k = own_prop ps k"
  by (simp add: field_def)

lemma truthy_field_truthy: "truthy (field v k) \<Longrightarrow> truthy v"
  by (cases v) (simp_all add: field_def)

lemma query_field_eq:
  "query_field req k = Inr (if truthy (query req) then field (query req) k else query req)"
  by (simp add: query_field_def read_prop_field truthy_not_nullish)

lemma truthy_query_field:
  "truthy (if truthy q then field q k else q) = truthy (field q k)"
  using truthy_field_truthy by auto

lemma prop_or_field:
  "\<not> nullish v \<Longrightarrow> prop_or v k1 k2 = Inr (or_else (field v k1) (field v k2))"
  by (simp add: prop_or_def read_prop_field or_else_def)

lemma prop_and_field:
  "\<not> nullish v \<Longrightarrow>
   prop_and v k1 k2 = Inr (if truthy (field v k1) then field v k2 else field v k1)"
  by (simp add: prop_and_def read_prop_field)

lemma or_else_Object_not_nullish [simp]: "\<not> nullish (or_else v (Object ps))"
  by (cases v) (simp_all add: or_else_def nullish_def)

lemma authorizationParams_eq:
  "\<not> nullish options \<Longrightarrow>
   authorizationParams self options =
     Inr (Object
       ((if truthy (or_else (field options ''scope'') (priv_scope self))
         then [(''scope'', or_else (field options ''scope'') (priv_scope self))] else [])
        @ (if truthy (or_else (field options ''accessType'') (field options ''access_type''))
           then [(''access_type'',
                  or_else (field options ''accessType'') (field options ''access_type''))]
           else [])))"
  by (simp add: authorizationParams_def read_prop_field prop_or_field Let_def)

lemma demo_unconvertible_throws [simp]: "\<not> convertible demo_unconvertible"
  "demo_unconvertible \<noteq> Undefined"
  by (simp_all add: demo_unconvertible_def)

lemma authenticate_error_branch:
  assumes "truthy (field (query req) ''error'')"
  shows "authenticate E self req options =
    ((if field (query req) ''error'' = Str ''access_denied''
      then [Fail (Object [(''message'', field (query req) ''error_description'')])]
      else if convertible (field (query req) ''error_description'')
      then [Error (New_Error [field (query req) ''error_description'',
                              field (query req) ''error'', field (query req) ''error_uri''])]
      else [Uncaught Thrown_TypeError]),
     self)"
proof -
  have q: "\<not> nullish (query req)"
    using assms truthy_field_truthy truthy_not_nullish by blast
  show ?thesis
    using assms
    by (simp add: authenticate_def authenticate_body_def query_field_eq truthy_query_field
        read_prop_field [OF q])
qed

lemma authenticate_code_branch:
  assumes "\<not> truthy (field (query req) ''error'')" "truthy (field (query req) ''code'')"
  shows "authenticate E self req options =
    (case run_callbacks (on_token E req) self
            (getToken E (oauth2Client self) (field (query req) ''code'')) of
       (ev, self') \<Rightarrow> (GetToken (field (query req) ''code'') # ev, self'))"
proof -
  have q: "\<not> nullish (query req)"
    using assms(2) truthy_field_truthy truthy_not_nullish by blast
  show ?thesis
    using assms
    by (simp add: authenticate_def authenticate_body_def query_field_eq truthy_query_field
        read_prop_field [OF q] split: prod.splits)
qed

lemma authenticate_redirect_branch:
  assumes "\<not> truthy (field (query req) ''error'')" "\<not> truthy (field (query req) ''code'')"
  shows "\<exists>params. authorizationParams self (or_else options (Object [])) = Inr params \<and>
    authenticate E self req options =
      ([Redirect (generateAuthUrl E (oauth2Client self) params)], self)"
  using assms
  by (simp add: authenticate_def authenticate_body_def query_field_eq truthy_query_field
      authorizationParams_eq Let_def)

lemma not_has_field: "\<not> has_field v k \<Longrightarrow> field v k = Undefined"
proof (cases v)
  case (Object ps)
  assume "\<not> has_field v k"
  with Object have "map_of ps k = None"
    by (simp add: has_field_def map_of_eq_None_iff)
  with Object show ?thesis
    by (simp add: own_prop_def)
qed (simp_all add: field_def)

section \<open>The provider-reported error\<close>

text \<open>
  C2, as the program has it. When \<^verbatim>\<open>req.query.error\<close> is truthy, \<^verbatim>\<open>authenticate\<close>
  does one thing and leaves the strategy as it was. If the value is
  \<^verbatim>\<open>'access_denied'\<close> it calls \<^verbatim>\<open>fail\<close> once, with the challenge
  \<^verbatim>\<open>{message: req.query.error_description}\<close>. For any other truthy value, when the
  description is absent or converts to a string, it calls \<^verbatim>\<open>error\<close> once, with
  \<^verbatim>\<open>new Error(error_description, error, error_uri)\<close>. Nothing else happens: no
  \<^verbatim>\<open>success\<close>, no redirect, no token exchange.
\<close>

theorem C2_provider_error:
  assumes "truthy (field (query req) ''error'')"
    and "field (query req) ''error'' = Str ''access_denied''
         \<or> convertible (field (query req) ''error_description'')"
  shows "authenticate E self req options =
    ((if field (query req) ''error'' = Str ''access_denied''
      then [Fail (Object [(''message'', field (query req) ''error_description'')])]
      else [Error (New_Error [field (query req) ''error_description'',
                              field (query req) ''error'', field (query req) ''error_uri''])]),
     self)"
  using assms by (auto simp add: authenticate_error_branch)

theorem C2_provider_error_witness:
  "truthy (field (query (demo_request [(''error'', Str ''server_error''),
                                        (''error_description'', Str ''try later'')])) ''error'')
   \<and> convertible (field (query (demo_request [(''error'', Str ''server_error''),
                                        (''error_description'', Str ''try later'')]))
                     ''error_description'')
   \<and> authenticate demo_env demo_strategy
         (demo_request [(''error'', Str ''server_error''),
                        (''error_description'', Str ''try later'')]) Undefined
       = ([Error (New_Error [Str ''try later'', Str ''server_error'', Undefined])],
          demo_strategy)"
proof -
  let ?req = "demo_request [(''error'', Str ''server_error''),
                            (''error_description'', Str ''try later'')]"
  have t: "truthy (field (query ?req) ''error'')"
    by (simp add: demo_request_def own_prop_def)
  have c: "convertible (field (query ?req) ''error_description'')"
    by (simp add: demo_request_def own_prop_def)
  have r: "authenticate demo_env demo_strategy ?req Undefined
       = ([Error (New_Error [Str ''try later'', Str ''server_error'', Undefined])],
          demo_strategy)"
    using C2_provider_error [OF t disjI2 [OF c], of demo_env demo_strategy Undefined]
    by (simp add: demo_request_def own_prop_def)
  show ?thesis
    by (intro conjI t c r)
qed

text \<open>
  C2 as it is written fails in three places. A query whose error field is the empty
  string (\<^verbatim>\<open>?error=\<close>) carries an error field with a value other than
  \<^verbatim>\<open>'access_denied'\<close>, and \<^verbatim>\<open>authenticate\<close> redirects instead of calling
  \<^verbatim>\<open>error\<close>. On \<^verbatim>\<open>'access_denied'\<close> the challenge is not the description itself but
  an object that holds it under \<^verbatim>\<open>message\<close>. And when the description is an object
  that does not convert to a string, \<^verbatim>\<open>new Error\<close> throws out of \<^verbatim>\<open>authenticate\<close>
  before \<^verbatim>\<open>error\<close> is called.
\<close>

theorem C2_counterexample:
  "has_field (query (demo_request [(''error'', Str [])])) ''error''
   \<and> field (query (demo_request [(''error'', Str [])])) ''error'' \<noteq> Str ''access_denied''
   \<and> fst (authenticate demo_env demo_strategy (demo_request [(''error'', Str [])]) Undefined)
       = [Redirect (Str ''https://accounts.example/auth?'')]
   \<and> fst (authenticate demo_env demo_strategy
            (demo_request [(''error'', Str ''access_denied''),
                           (''error_description'', Str ''denied by user'')]) Undefined)
       = [Fail (Object [(''message'', Str ''denied by user'')])]
   \<and> Object [(''message'', Str ''denied by user'')] \<noteq> Str ''denied by user''
   \<and> fst (authenticate demo_env demo_strategy
            (demo_request [(''error'', Str ''server_error''),
                           (''error_description'', demo_unconvertible)]) Undefined)
       = [Uncaught Thrown_TypeError]"
proof -
  have a: "fst (authenticate demo_env demo_strategy (demo_request [(''error'', Str [])]) Undefined)
       = [Redirect (Str ''https://accounts.example/auth?'')]"
    using authenticate_redirect_branch
      [of "demo_request [(''error'', Str [])]" demo_strategy Undefined demo_env]
    by (auto simp add: demo_request_def own_prop_def demo_env_def demo_url_def
        authorizationParams_eq demo_strategy_def or_else_def nullish_def)
  have b: "fst (authenticate demo_env demo_strategy
            (demo_request [(''error'', Str ''access_denied''),
                           (''error_description'', Str ''denied by user'')]) Undefined)
       = [Fail (Object [(''message'', Str ''denied by user'')])]"
    by (simp add: authenticate_error_branch demo_request_def own_prop_def)
  have c: "fst (authenticate demo_env demo_strategy
            (demo_request [(''error'', Str ''server_error''),
                           (''error_description'', demo_unconvertible)]) Undefined)
       = [Uncaught Thrown_TypeError]"
    by (simp add: authenticate_error_branch demo_request_def own_prop_def)
  show ?thesis
    using a b c by (simp add: demo_request_def has_field_def own_prop_def)
qed

section \<open>The initial leg\<close>

text \<open>
  C3. When the query has neither a \<^verbatim>\<open>code\<close> field nor an \<^verbatim>\<open>error\<close> field, also when
  the request has no query object, \<^verbatim>\<open>authenticate\<close> does one thing: it redirects, to
  the URL that \<^verbatim>\<open>generateAuthUrl\<close> makes of
  \<^verbatim>\<open>authorizationParams(options || {})\<close>, which does not throw. There is no
  \<^verbatim>\<open>success\<close>, \<^verbatim>\<open>fail\<close> or \<^verbatim>\<open>error\<close>, and the strategy is unchanged.
\<close>

theorem C3_initial_leg_redirects:
  assumes "\<not> has_field (query req) ''code''" and "\<not> has_field (query req) ''error''"
  shows "\<exists>params. authorizationParams self (or_else options (Object [])) = Inr params \<and>
    authenticate E self req options =
      ([Redirect (generateAuthUrl E (oauth2Client self) params)], self)"
  using assms by (intro authenticate_redirect_branch) (simp_all add: not_has_field)

theorem C3_initial_leg_redirects_witness:
  "\<not> has_field (query \<lparr> query = Undefined \<rparr>) ''code''
   \<and> \<not> has_field (query \<lparr> query = Undefined \<rparr>) ''error''
   \<and> authenticate demo_env demo_strategy \<lparr> query = Undefined \<rparr>
         (Object [(''scope'', Str ''a b''), (''accessType'', Str ''offline'')])
       = ([Redirect (Str ''https://accounts.example/auth?scope=a b&access_type=offline&'')],
          demo_strategy)"
proof -
  have c: "\<not> has_field (query \<lparr> query = Undefined \<rparr>) ''code''"
    and e: "\<not> has_field (query \<lparr> query = Undefined \<rparr>) ''error''"
    by (simp_all add: has_field_def)
  show ?thesis
    using c e C3_initial_leg_redirects [OF c e, of demo_strategy
        "Object [(''scope'', Str ''a b''), (''accessType'', Str ''offline'')]" demo_env]
    by (auto simp add: authorizationParams_eq nullish_def or_else_def own_prop_def
        demo_env_def demo_url_def demo_strategy_def)
qed

section \<open>The callbacks\<close>

lemma run_callbacks_single [simp]: "run_callbacks k s [x] = k s x"
  by (simp split: prod.splits)

lemma createOAuthError_eq:
  assumes "\<not> nullish err"
  shows "createOAuthError E message err =
    (if truthy (field err ''statusCode'') \<and> truthy (field err ''data'')
     then (case JSON_parse E (field err ''data'') of
             None \<Rightarrow> new_Error [message, err]
           | Some json \<Rightarrow>
               if truthy (field json ''error'') \<and> convertible (field json ''error_description'')
               then Inr (New_Error [field json ''error_description'', field json ''error'',
                                    field json ''error_uri''])
               else new_Error [message, err])
     else new_Error [message, err])"
proof (cases "truthy (field err ''statusCode'') \<and> truthy (field err ''data'')")
  case False
  then show ?thesis
    using assms by (auto simp add: createOAuthError_def prop_and_field)
next
  case True
  show ?thesis
  proof (cases "JSON_parse E (field err ''data'')")
    case None
    with True show ?thesis
      using assms
      by (simp add: createOAuthError_def prop_and_field read_prop_field parseErrorResponse_def)
  next
    case (Some json)
    show ?thesis
    proof (cases "nullish json")
      case True
      then have "read_prop json ''error'' = Inl Thrown_TypeError" "field json ''error'' = Undefined"
        by (auto simp add: nullish_def)
      with \<open>truthy (field err ''statusCode'') \<and> truthy (field err ''data'')\<close> Some show ?thesis
        using assms
        by (simp add: createOAuthError_def prop_and_field read_prop_field parseErrorResponse_def)
    next
      case False
      with \<open>truthy (field err ''statusCode'') \<and> truthy (field err ''data'')\<close> Some show ?thesis
        using assms
        by (simp add: createOAuthError_def prop_and_field read_prop_field parseErrorResponse_def)
    qed
  qed
qed

lemma createOAuthError_returns:
  assumes "\<not> nullish err" and "convertible message"
  shows "\<exists>e. createOAuthError E message err = Inr e"
  using assms by (simp add: createOAuthError_eq split: option.splits)

lemma on_token_failure:
  assumes "truthy err"
  shows "\<exists>e. createOAuthError E (Str ''Failed to obtain access token'') err = Inr e \<and>
    on_token E req self (err, tokens) = ([Error e], self)"
  using assms
    createOAuthError_returns [OF truthy_not_nullish [OF assms], of "Str ''Failed to obtain access token''" E]
  by (auto simp add: on_token_def)

lemma on_token_success:
  assumes "\<not> truthy err" and "\<not> nullish tokens"
  shows "on_token E req self (err, tokens) =
    (SetCredentials tokens
       # UserinfoGet ((oauth2Client self)\<lparr> credentials := Some tokens \<rparr>)
       # concat (map (on_profile
                       (self\<lparr> oauth2Client := (oauth2Client self)\<lparr> credentials := Some tokens \<rparr> \<rparr>)
                       req (field tokens ''access_token'')
                       (or_else (field tokens ''refresh_token'') Null))
                  (userinfo_get E ((oauth2Client self)\<lparr> credentials := Some tokens \<rparr>))),
     self\<lparr> oauth2Client := (oauth2Client self)\<lparr> credentials := Some tokens \<rparr> \<rparr>)"
  using assms by (simp add: on_token_def read_prop_field Let_def)

lemma authenticate_token_failure:
  assumes "\<not> truthy (field (query req) ''error'')" and "truthy (field (query req) ''code'')"
    and "getToken E (oauth2Client self) (field (query req) ''code'') = [(err, tokens)]"
    and "truthy err"
  shows "\<exists>e. createOAuthError E (Str ''Failed to obtain access token'') err = Inr e \<and>
    authenticate E self req options = ([GetToken (field (query req) ''code''), Error e], self)"
  using on_token_failure [OF assms(4), of E req self tokens] assms(3)
  by (auto simp add: authenticate_code_branch [OF assms(1,2)])

lemma authenticate_token_success:
  assumes "\<not> truthy (field (query req) ''error'')" and "truthy (field (query req) ''code'')"
    and "getToken E (oauth2Client self) (field (query req) ''code'') = [(err, tokens)]"
    and "\<not> truthy err" and "\<not> nullish tokens"
  shows "authenticate E self req options =
    (GetToken (field (query req) ''code'') # SetCredentials tokens
       # UserinfoGet ((oauth2Client self)\<lparr> credentials := Some tokens \<rparr>)
       # concat (map (on_profile
                       (self\<lparr> oauth2Client := (oauth2Client self)\<lparr> credentials := Some tokens \<rparr> \<rparr>)
                       req (field tokens ''access_token'')
                       (or_else (field tokens ''refresh_token'') Null))
                  (userinfo_get E ((oauth2Client self)\<lparr> credentials := Some tokens \<rparr>))),
     self\<lparr> oauth2Client := (oauth2Client self)\<lparr> credentials := Some tokens \<rparr> \<rparr>)"
  using assms(3)
  by (simp add: authenticate_code_branch [OF assms(1,2)] on_token_success [OF assms(4,5)])

section \<open>The token exchange\<close>

text \<open>
  C4. Take a request whose query has no truthy \<^verbatim>\<open>error\<close> field (none at all, in
  particular), and a client whose \<^verbatim>\<open>getToken\<close> answers the code of the query once,
  with a failure. If the query carries a code that the program's test accepts,
  \<^verbatim>\<open>authenticate\<close> starts the exchange and calls \<^verbatim>\<open>error\<close> exactly once, with
  \<^verbatim>\<open>_createOAuthError('Failed to obtain access token', err)\<close>, which does not throw;
  nothing else happens, so the credentials are not set and the profile is not fetched.
  If the code is empty or otherwise falsy, no exchange is started to fail: the
  invocation is a single redirect.
\<close>

theorem C4_token_exchange_failure:
  assumes "\<not> truthy (field (query req) ''error'')"
    and "getToken E (oauth2Client self) (field (query req) ''code'') = [(err, tokens)]"
    and "truthy err"
  shows "if truthy (field (query req) ''code'')
         then (\<exists>e. createOAuthError E (Str ''Failed to obtain access token'') err = Inr e \<and>
                 authenticate E self req options =
                   ([GetToken (field (query req) ''code''), Error e], self))
         else (\<exists>url. authenticate E self req options = ([Redirect url], self))"
proof (cases "truthy (field (query req) ''code'')")
  case True
  then show ?thesis
    using authenticate_token_failure [OF assms(1) True assms(2,3)] by simp
next
  case False
  then show ?thesis
    using authenticate_redirect_branch [OF assms(1) False, of self options E] by auto
qed

theorem C4_token_exchange_failure_witness:
  "\<not> truthy (field (query (demo_request [(''code'', Str ''abc123'')])) ''error'')
   \<and> getToken demo_env_failing (oauth2Client demo_strategy)
         (field (query (demo_request [(''code'', Str ''abc123'')])) ''code'')
       = [(demo_failure, Undefined)]
   \<and> truthy demo_failure
   \<and> truthy (field (query (demo_request [(''code'', Str ''abc123'')])) ''code'')
   \<and> authenticate demo_env_failing demo_strategy (demo_request [(''code'', Str ''abc123'')])
         Undefined
       = ([GetToken (Str ''abc123''),
           Error (New_Error [Str ''bad code'', Str ''invalid_grant'', Undefined])],
          demo_strategy)"
proof -
  let ?req = "demo_request [(''code'', Str ''abc123'')]"
  have a: "\<not> truthy (field (query ?req) ''error'')"
    by (simp add: demo_request_def own_prop_def)
  have b: "getToken demo_env_failing (oauth2Client demo_strategy) (field (query ?req) ''code'')
       = [(demo_failure, Undefined)]"
    by (simp add: demo_env_failing_def)
  have c: "truthy demo_failure"
    by (simp add: demo_failure_def)
  have d: "truthy (field (query ?req) ''code'')"
    by (simp add: demo_request_def own_prop_def)
  have e: "createOAuthError demo_env_failing (Str ''Failed to obtain access token'') demo_failure
       = Inr (New_Error [Str ''bad code'', Str ''invalid_grant'', Undefined])"
    by (simp add: createOAuthError_eq nullish_def demo_failure_def own_prop_def
        demo_env_failing_def demo_env_def demo_parse_def demo_payload_def)
  show ?thesis
    using a b c d e C4_token_exchange_failure [OF a b c, of Undefined]
    by (auto simp add: demo_request_def own_prop_def)
qed

text \<open>
  C5. Take a request that starts the exchange and a client whose \<^verbatim>\<open>getToken\<close> answers
  once, without a failure and with a token set. Then the refresh token is
  \<^verbatim>\<open>tokens.refresh_token || null\<close>: never \<^verbatim>\<open>undefined\<close>, \<^verbatim>\<open>null\<close> when the token
  set has no \<^verbatim>\<open>refresh_token\<close>, the token itself when it is truthy. The invocation
  calls \<^verbatim>\<open>getToken\<close>, then \<^verbatim>\<open>setCredentials(tokens)\<close>, then the profile fetch with
  the client that now holds these credentials, and then runs the profile callback on
  each answer of the fetch; the strategy is left with the credentialed client. In
  particular, with the token set \<^verbatim>\<open>{access_token: 'AT1'}\<close>, request passthrough off
  and a verify callback that does not declare five parameters, every successful answer
  of the fetch makes the invocation call verify as \<^verbatim>\<open>('AT1', null, profile, done)\<close>.
\<close>

theorem C5_token_exchange_success:
  fixes self :: strategy and tokens :: jsval
  defines "client \<equiv> (oauth2Client self)\<lparr> credentials := Some tokens \<rparr>"
  defines "refreshToken \<equiv> or_else (field tokens ''refresh_token'') Null"
  assumes "\<not> truthy (field (query req) ''error'')" and "truthy (field (query req) ''code'')"
    and "getToken E (oauth2Client self) (field (query req) ''code'') = [(err, tokens)]"
    and "\<not> truthy err" and "\<not> nullish tokens"
  shows "refreshToken \<noteq> Undefined
    \<and> (\<not> has_field tokens ''refresh_token'' \<longrightarrow> refreshToken = Null)
    \<and> (truthy (field tokens ''refresh_token'') \<longrightarrow> refreshToken = field tokens ''refresh_token'')
    \<and> authenticate E self req options =
        (GetToken (field (query req) ''code'') # SetCredentials tokens # UserinfoGet client
           # concat (map (on_profile (self\<lparr> oauth2Client := client \<rparr>) req
                           (field tokens ''access_token'') refreshToken)
                      (userinfo_get E client)),
         self\<lparr> oauth2Client := client \<rparr>)
    \<and> (tokens = Object [(''access_token'', Str ''AT1'')]
         \<and> \<not> truthy (priv_passReqToCallback self) \<and> fn_length (priv_verify self) \<noteq> 5 \<longrightarrow>
       (\<forall>perr profile. (perr, profile) \<in> set (userinfo_get E client) \<and> \<not> truthy perr \<longrightarrow>
          Verify [ArgVal (Str ''AT1''), ArgVal Null, ArgVal profile, ArgDone]
            \<in> set (fst (authenticate E self req options))))"
proof -
  have r1: "refreshToken \<noteq> Undefined"
    by (simp add: refreshToken_def or_else_def) auto
  have r2: "\<not> has_field tokens ''refresh_token'' \<longrightarrow> refreshToken = Null"
    by (simp add: refreshToken_def or_else_def not_has_field)
  have r3: "truthy (field tokens ''refresh_token'') \<longrightarrow>
      refreshToken = field tokens ''refresh_token''"
    by (simp add: refreshToken_def or_else_def)
  have tr: "authenticate E self req options =
        (GetToken (field (query req) ''code'') # SetCredentials tokens # UserinfoGet client
           # concat (map (on_profile (self\<lparr> oauth2Client := client \<rparr>) req
                           (field tokens ''access_token'') refreshToken)
                      (userinfo_get E client)),
         self\<lparr> oauth2Client := client \<rparr>)"
    unfolding client_def refreshToken_def
    using assms(3-7) by (rule authenticate_token_success)
  have ex: "Verify [ArgVal (Str ''AT1''), ArgVal Null, ArgVal profile, ArgDone]
            \<in> set (fst (authenticate E self req options))"
    if t: "tokens = Object [(''access_token'', Str ''AT1'')]"
      and p: "\<not> truthy (priv_passReqToCallback self)" and n: "fn_length (priv_verify self) \<noteq> 5"
      and m: "(perr, profile) \<in> set (userinfo_get E client)" and s: "\<not> truthy perr"
    for perr profile
  proof -
    have rt: "refreshToken = Null" and at: "field tokens ''access_token'' = Str ''AT1''"
      using t by (simp_all add: refreshToken_def or_else_def own_prop_def)
    have "Verify [ArgVal (Str ''AT1''), ArgVal Null, ArgVal profile, ArgDone]
        \<in> set (on_profile (self\<lparr> oauth2Client := client \<rparr>) req (Str ''AT1'') Null (perr, profile))"
      using p n s
      by (cases "fn_body (priv_verify self)
                   [ArgVal (Str ''AT1''), ArgVal Null, ArgVal profile, ArgDone]")
         (simp add: on_profile_def verify_args_def Let_def)
    with m show ?thesis
      unfolding tr rt at by (simp, blast)
  qed
  from r1 r2 r3 tr ex show ?thesis by blast
qed


theorem C5_token_exchange_success_witness:
  "\<not> truthy (field (query (demo_request [(''code'', Str ''abc123'')])) ''error'')
   \<and> truthy (field (query (demo_request [(''code'', Str ''abc123'')])) ''code'')
   \<and> getToken demo_env (oauth2Client demo_strategy)
         (field (query (demo_request [(''code'', Str ''abc123'')])) ''code'')
       = [(Null, Object [(''access_token'', Str ''AT1'')])]
   \<and> \<not> truthy Null
   \<and> \<not> nullish (Object [(''access_token'', Str ''AT1'')])
   \<and> fst (authenticate demo_env demo_strategy (demo_request [(''code'', Str ''abc123'')])
            Undefined)
       = [GetToken (Str ''abc123''),
          SetCredentials (Object [(''access_token'', Str ''AT1'')]),
          UserinfoGet (demo_client\<lparr> credentials := Some (Object [(''access_token'', Str ''AT1'')]) \<rparr>),
          Verify [ArgVal (Str ''AT1''), ArgVal Null, ArgVal demo_profile, ArgDone],
          Success demo_user Undefined]"
proof -
  let ?req = "demo_request [(''code'', Str ''abc123'')]"
  let ?tokens = "Object [(''access_token'', Str ''AT1'')]"
  have a: "\<not> truthy (field (query ?req) ''error'')"
    and b: "truthy (field (query ?req) ''code'')"
    by (simp_all add: demo_request_def own_prop_def)
  have c: "getToken demo_env (oauth2Client demo_strategy) (field (query ?req) ''code'')
       = [(Null, ?tokens)]"
    by (simp add: demo_env_def)
  have d: "\<not> truthy Null" and e: "\<not> nullish ?tokens"
    by (simp_all add: nullish_def)
  have f: "field (query ?req) ''code'' = Str ''abc123''"
    by (simp add: demo_request_def own_prop_def)
  show ?thesis
    using a b c d e C5_token_exchange_success [OF a b c d e, of Undefined]
    by (simp add: f on_profile_def verify_args_def or_else_def own_prop_def demo_env_def
        demo_strategy_def demo_verify_def demo_user_def)
qed

section \<open>The verify callback\<close>

lemma verify_args_client [simp]:
  "verify_args (self\<lparr> oauth2Client := c \<rparr>) req a r p = verify_args self req a r p"
  by (simp add: verify_args_def)

lemma verified_no_verify_call [simp]:
  "filter is_verify_call (concat (map verified ds)) = []"
  by (induction ds) auto

lemma on_profile_verify_calls:
  "filter is_verify_call (on_profile self req a r (err, profile)) =
     (if truthy err then [] else [Verify (verify_args self req a r profile)])"
  by (cases "fn_body (priv_verify self) (verify_args self req a r profile)")
     (simp add: on_profile_def Let_def split: completion.splits)

lemma profile_answers_verify_calls:
  "filter is_verify_call (concat (map (on_profile self req a r) answers)) =
     map (\<lambda>x. Verify (verify_args self req a r (snd x)))
       (filter (\<lambda>x. \<not> truthy (fst x)) answers)"
proof (induction answers)
  case Nil
  show ?case by simp
next
  case (Cons x xs)
  obtain err profile where x: "x = (err, profile)"
    by (cases x)
  show ?case
    using Cons.IH by (simp add: x on_profile_verify_calls)
qed

text \<open>
  C6. Take a request that starts the exchange and a successful token exchange. The calls
  of the verify callback in the invocation are, in order, one for each answer of the
  profile fetch that carries no failure, and none else. The arguments of the call for
  the profile \<open>p\<close> are: with \<^verbatim>\<open>_passReqToCallback\<close> falsy,
  \<^verbatim>\<open>(accessToken, refreshToken, {}, p, done)\<close> for a callback that declares five
  parameters and \<^verbatim>\<open>(accessToken, refreshToken, p, done)\<close> for any other; with
  \<^verbatim>\<open>_passReqToCallback\<close> truthy, \<^verbatim>\<open>(req, accessToken, refreshToken, {}, p, done)\<close>
  for a callback that declares six parameters and
  \<^verbatim>\<open>(req, accessToken, refreshToken, p, done)\<close> for any other. The object in the
  reserved place is always empty.
\<close>

theorem C6_verify_dispatch:
  fixes self :: strategy and tokens :: jsval and req :: request
  defines "client \<equiv> (oauth2Client self)\<lparr> credentials := Some tokens \<rparr>"
  defines "accessToken \<equiv> field tokens ''access_token''"
  defines "refreshToken \<equiv> or_else (field tokens ''refresh_token'') Null"
  defines "args \<equiv> (\<lambda>p.
    if truthy (priv_passReqToCallback self)
    then (if fn_length (priv_verify self) = 6
          then [ArgReq req, ArgVal accessToken, ArgVal refreshToken, ArgVal (Object []),
                ArgVal p, ArgDone]
          else [ArgReq req, ArgVal accessToken, ArgVal refreshToken, ArgVal p, ArgDone])
    else (if fn_length (priv_verify self) = 5
          then [ArgVal accessToken, ArgVal refreshToken, ArgVal (Object []), ArgVal p, ArgDone]
          else [ArgVal accessToken, ArgVal refreshToken, ArgVal p, ArgDone]))"
  assumes "\<not> truthy (field (query req) ''error'')" and "truthy (field (query req) ''code'')"
    and "getToken E (oauth2Client self) (field (query req) ''code'') = [(err, tokens)]"
    and "\<not> truthy err" and "\<not> nullish tokens"
  shows "filter is_verify_call (fst (authenticate E self req options)) =
    map (\<lambda>answer. Verify (args (snd answer)))
      (filter (\<lambda>answer. \<not> truthy (fst answer)) (userinfo_get E client))"
proof -
  have "args = verify_args self req accessToken refreshToken"
    by (rule ext) (simp add: args_def verify_args_def Let_def)
  then show ?thesis
    unfolding client_def accessToken_def refreshToken_def
    by (simp add: authenticate_token_success [OF assms(5-9)] profile_answers_verify_calls)
qed

theorem C6_verify_dispatch_witness:
  "\<not> truthy (field (query (demo_request [(''code'', Str ''abc123'')])) ''error'')
   \<and> truthy (field (query (demo_request [(''code'', Str ''abc123'')])) ''code'')
   \<and> getToken demo_env (oauth2Client (demo_strategy\<lparr> priv_verify := demo_verify_no_match \<rparr>))
         (field (query (demo_request [(''code'', Str ''abc123'')])) ''code'')
       = [(Null, Object [(''access_token'', Str ''AT1'')])]
   \<and> \<not> truthy Null
   \<and> \<not> nullish (Object [(''access_token'', Str ''AT1'')])
   \<and> filter is_verify_call
         (fst (authenticate demo_env (demo_strategy\<lparr> priv_verify := demo_verify_no_match \<rparr>)
                 (demo_request [(''code'', Str ''abc123'')]) Undefined))
       = [Verify [ArgVal (Str ''AT1''), ArgVal Null, ArgVal (Object []), ArgVal demo_profile,
                  ArgDone]]"
proof -
  let ?req = "demo_request [(''code'', Str ''abc123'')]"
  let ?tokens = "Object [(''access_token'', Str ''AT1'')]"
  let ?self = "demo_strategy\<lparr> priv_verify := demo_verify_no_match \<rparr>"
  have a: "\<not> truthy (field (query ?req) ''error'')"
    and b: "truthy (field (query ?req) ''code'')"
    by (simp_all add: demo_request_def own_prop_def)
  have c: "getToken demo_env (oauth2Client ?self) (field (query ?req) ''code'')
       = [(Null, ?tokens)]"
    by (simp add: demo_env_def)
  have d: "\<not> truthy Null" and e: "\<not> nullish ?tokens"
    by (simp_all add: nullish_def)
  show ?thesis
    using a b c d e C6_verify_dispatch [OF a b c d e, of Undefined]
    by (simp add: or_else_def own_prop_def demo_env_def demo_strategy_def
        demo_verify_no_match_def)
qed

text \<open>
  C7. Take a request that starts the exchange, a successful token exchange and a profile
  fetch that answers once, without a failure. Whatever the call of the verify callback
  does, every call \<^verbatim>\<open>done(err, user, info)\<close> it makes resolves as follows: a truthy
  \<^verbatim>\<open>err\<close> gives \<^verbatim>\<open>error(err)\<close>; otherwise a falsy \<^verbatim>\<open>user\<close> gives \<^verbatim>\<open>fail(info)\<close>;
  otherwise \<^verbatim>\<open>success(user, info)\<close>. An exception thrown by the call is caught and
  gives \<^verbatim>\<open>error\<close> with the thrown value, after the outcomes of the calls of \<^verbatim>\<open>done\<close>
  made before the throw. Nothing else follows the call of the verify callback.
\<close>

theorem C7_done_resolves:
  fixes self :: strategy and tokens :: jsval and req :: request
  defines "client \<equiv> (oauth2Client self)\<lparr> credentials := Some tokens \<rparr>"
  defines "args \<equiv> (\<lambda>profile. verify_args self req (field tokens ''access_token'')
                       (or_else (field tokens ''refresh_token'') Null) profile)"
  defines "resolve \<equiv> (\<lambda>(err, user, info).
    if truthy err then [Error err] else if truthy user then [Success user info] else [Fail info])"
  assumes "\<not> truthy (field (query req) ''error'')" and "truthy (field (query req) ''code'')"
    and "getToken E (oauth2Client self) (field (query req) ''code'') = [(err, tokens)]"
    and "\<not> truthy err" and "\<not> nullish tokens"
    and "userinfo_get E client = [(perr, profile)]" and "\<not> truthy perr"
    and "fn_body (priv_verify self) (args profile) = Run during c later"
  shows "fst (authenticate E self req options) =
    [GetToken (field (query req) ''code''), SetCredentials tokens, UserinfoGet client,
     Verify (args profile)]
    @ concat (map resolve during)
    @ (case c of Returns \<Rightarrow> [] | Throws ex \<Rightarrow> [Error ex])
    @ concat (map resolve later)"
proof -
  have r: "resolve = verified"
    by (rule ext) (auto simp add: resolve_def)
  show ?thesis
    using assms(9-11) unfolding r client_def args_def
    by (simp add: authenticate_token_success [OF assms(4-8)] on_profile_def Let_def)
qed

theorem C7_done_resolves_witness:
  "\<not> truthy (field (query (demo_request [(''code'', Str ''abc123'')])) ''error'')
   \<and> truthy (field (query (demo_request [(''code'', Str ''abc123'')])) ''code'')
   \<and> getToken demo_env (oauth2Client (demo_strategy\<lparr> priv_verify := demo_verify_no_match \<rparr>))
         (field (query (demo_request [(''code'', Str ''abc123'')])) ''code'')
       = [(Null, Object [(''access_token'', Str ''AT1'')])]
   \<and> \<not> truthy Null
   \<and> \<not> nullish (Object [(''access_token'', Str ''AT1'')])
   \<and> userinfo_get demo_env
         ((oauth2Client (demo_strategy\<lparr> priv_verify := demo_verify_no_match \<rparr>))
            \<lparr> credentials := Some (Object [(''access_token'', Str ''AT1'')]) \<rparr>)
       = [(Null, demo_profile)]
   \<and> fn_body (priv_verify (demo_strategy\<lparr> priv_verify := demo_verify_no_match \<rparr>))
         [ArgVal (Str ''AT1''), ArgVal Null, ArgVal (Object []), ArgVal demo_profile, ArgDone]
       = Run [(Null, Null, Object [(''message'', Str ''no match'')])] Returns []
   \<and> fst (authenticate demo_env (demo_strategy\<lparr> priv_verify := demo_verify_no_match \<rparr>)
            (demo_request [(''code'', Str ''abc123'')]) Undefined)
       = [GetToken (Str ''abc123''),
          SetCredentials (Object [(''access_token'', Str ''AT1'')]),
          UserinfoGet (demo_client\<lparr> credentials := Some (Object [(''access_token'', Str ''AT1'')]) \<rparr>),
          Verify [ArgVal (Str ''AT1''), ArgVal Null, ArgVal (Object []), ArgVal demo_profile,
                  ArgDone],
          Fail (Object [(''message'', Str ''no match'')])]
   \<and> fn_body (priv_verify (demo_strategy\<lparr> priv_verify := demo_verify_throws \<rparr>))
         [ArgVal (Str ''AT1''), ArgVal Null, ArgVal demo_profile, ArgDone]
       = Run [] (Throws (Str ''boom'')) []
   \<and> fst (authenticate demo_env (demo_strategy\<lparr> priv_verify := demo_verify_throws \<rparr>)
            (demo_request [(''code'', Str ''abc123'')]) Undefined)
       = [GetToken (Str ''abc123''),
          SetCredentials (Object [(''access_token'', Str ''AT1'')]),
          UserinfoGet (demo_client\<lparr> credentials := Some (Object [(''access_token'', Str ''AT1'')]) \<rparr>),
          Verify [ArgVal (Str ''AT1''), ArgVal Null, ArgVal demo_profile, ArgDone],
          Error (Str ''boom'')]"
proof -
  let ?req = "demo_request [(''code'', Str ''abc123'')]"
  let ?tokens = "Object [(''access_token'', Str ''AT1'')]"
  let ?self = "demo_strategy\<lparr> priv_verify := demo_verify_no_match \<rparr>"
  let ?self' = "demo_strategy\<lparr> priv_verify := demo_verify_throws \<rparr>"
  have a: "\<not> truthy (field (query ?req) ''error'')"
    and b: "truthy (field (query ?req) ''code'')"
    by (simp_all add: demo_request_def own_prop_def)
  have c: "getToken demo_env (oauth2Client ?self) (field (query ?req) ''code'')
       = [(Null, ?tokens)]"
    and c': "getToken demo_env (oauth2Client ?self') (field (query ?req) ''code'')
       = [(Null, ?tokens)]"
    by (simp_all add: demo_env_def)
  have d: "\<not> truthy Null" and e: "\<not> nullish ?tokens"
    by (simp_all add: nullish_def)
  have f: "userinfo_get demo_env ((oauth2Client ?self)\<lparr> credentials := Some ?tokens \<rparr>)
       = [(Null, demo_profile)]"
    and f': "userinfo_get demo_env ((oauth2Client ?self')\<lparr> credentials := Some ?tokens \<rparr>)
       = [(Null, demo_profile)]"
    by (simp_all add: demo_env_def)
  have g: "fn_body (priv_verify ?self)
       (verify_args ?self ?req (field ?tokens ''access_token'')
          (or_else (field ?tokens ''refresh_token'') Null) demo_profile)
       = Run [(Null, Null, Object [(''message'', Str ''no match'')])] Returns []"
    by (simp add: demo_verify_no_match_def)
  have g': "fn_body (priv_verify ?self')
       (verify_args ?self' ?req (field ?tokens ''access_token'')
          (or_else (field ?tokens ''refresh_token'') Null) demo_profile)
       = Run [] (Throws (Str ''boom'')) []"
    by (simp add: demo_verify_throws_def)
  have h: "verify_args ?self ?req (field ?tokens ''access_token'')
          (or_else (field ?tokens ''refresh_token'') Null) demo_profile
        = [ArgVal (Str ''AT1''), ArgVal Null, ArgVal (Object []), ArgVal demo_profile, ArgDone]"
    by (simp add: verify_args_def demo_verify_no_match_def demo_strategy_def or_else_def
        own_prop_def)
  have h': "verify_args ?self' ?req (field ?tokens ''access_token'')
          (or_else (field ?tokens ''refresh_token'') Null) demo_profile
        = [ArgVal (Str ''AT1''), ArgVal Null, ArgVal demo_profile, ArgDone]"
    by (simp add: verify_args_def demo_verify_throws_def demo_strategy_def or_else_def
        own_prop_def)
  have i: "field (query ?req) ''code'' = Str ''abc123''"
    by (simp add: demo_request_def own_prop_def)
  have k: "fn_body (priv_verify ?self)
         [ArgVal (Str ''AT1''), ArgVal Null, ArgVal (Object []), ArgVal demo_profile, ArgDone]
       = Run [(Null, Null, Object [(''message'', Str ''no match'')])] Returns []"
    by (simp add: demo_verify_no_match_def)
  have k': "fn_body (priv_verify ?self')
         [ArgVal (Str ''AT1''), ArgVal Null, ArgVal demo_profile, ArgDone]
       = Run [] (Throws (Str ''boom'')) []"
    by (simp add: demo_verify_throws_def)
  have tr: "fst (authenticate demo_env ?self ?req Undefined)
       = [GetToken (Str ''abc123''),
          SetCredentials ?tokens,
          UserinfoGet (demo_client\<lparr> credentials := Some ?tokens \<rparr>),
          Verify [ArgVal (Str ''AT1''), ArgVal Null, ArgVal (Object []), ArgVal demo_profile,
                  ArgDone],
          Fail (Object [(''message'', Str ''no match'')])]"
    using C7_done_resolves [OF a b c d e f d g, of Undefined]
    unfolding h i by (simp add: demo_strategy_def)
  have tr': "fst (authenticate demo_env ?self' ?req Undefined)
       = [GetToken (Str ''abc123''),
          SetCredentials ?tokens,
          UserinfoGet (demo_client\<lparr> credentials := Some ?tokens \<rparr>),
          Verify [ArgVal (Str ''AT1''), ArgVal Null, ArgVal demo_profile, ArgDone],
          Error (Str ''boom'')]"
    using C7_done_resolves [OF a b c' d e f' d g', of Undefined]
    unfolding h' i by (simp add: demo_strategy_def)
  show ?thesis
    by (intro conjI a b c d e f k tr k' tr')
qed

section \<open>Error normalisation\<close>

lemma demo_payload_nonempty [simp]: "demo_payload \<noteq> []"
  by (simp add: demo_payload_def)

lemma demo_payload_empty_error_nonempty [simp]: "demo_payload_empty_error \<noteq> []"
  by (simp add: demo_payload_empty_error_def)

lemma demo_payload_object_description_nonempty [simp]: "demo_payload_object_description \<noteq> []"
  by (simp add: demo_payload_object_description_def)

lemma demo_payloads_differ [simp]:
  "demo_payload_empty_error \<noteq> demo_payload"
  "demo_payload_object_description \<noteq> demo_payload"
  "demo_payload_object_description \<noteq> demo_payload_empty_error"
  by (simp_all add: demo_payload_def demo_payload_empty_error_def
      demo_payload_object_description_def)

lemma demo_parse_payload [simp]:
  "JSON_parse demo_env (Str demo_payload)
     = Some (Object [(''error'', Str ''invalid_grant''), (''error_description'', Str ''bad code'')])"
  "JSON_parse demo_env (Str demo_payload_empty_error)
     = Some (Object [(''error'', Str []), (''error_description'', Str ''bad code'')])"
  "JSON_parse demo_env (Str demo_payload_object_description)
     = Some (Object [(''error'', Str ''invalid_grant''),
                     (''error_description'', demo_unconvertible)])"
  by (simp_all add: demo_env_def demo_parse_def)

lemma demo_parse_html [simp]: "JSON_parse demo_env (Str ''<html>'') = None"
  by (simp add: demo_env_def demo_parse_def demo_payload_def demo_payload_empty_error_def
      demo_payload_object_description_def)

text \<open>
  C8, as the program has it. Take a failure value other than \<^verbatim>\<open>undefined\<close> and
  \<^verbatim>\<open>null\<close> (the caller passes a truthy one) and a message that converts to a string
  (the caller passes a string). Then \<^verbatim>\<open>_createOAuthError\<close> returns and does not
  throw, and its result is a function of its arguments and of what \<^verbatim>\<open>JSON.parse\<close>
  makes of the payload. If \<^verbatim>\<open>statusCode\<close> and \<^verbatim>\<open>data\<close> are both truthy, \<^verbatim>\<open>data\<close>
  parses, and the parsed value has a truthy \<^verbatim>\<open>error\<close> field and a description that
  is absent or converts to a string, the result is
  \<^verbatim>\<open>new Error(error_description, error, error_uri)\<close> of the parsed value, whose message
  is the description when that is a string. In every other case (a falsy or missing
  \<^verbatim>\<open>statusCode\<close> or \<^verbatim>\<open>data\<close>, a payload that does not parse, a parsed value that is
  \<^verbatim>\<open>null\<close> or has no truthy \<^verbatim>\<open>error\<close> field, a description whose conversion throws
  inside the \<^verbatim>\<open>try\<close>) the result is the generic \<^verbatim>\<open>new Error(message, err)\<close>.
\<close>

theorem C8_createOAuthError:
  assumes "\<not> nullish err" and "convertible message"
  shows "\<exists>e. createOAuthError E message err = Inr e
    \<and> e = (if truthy (field err ''statusCode'') \<and> truthy (field err ''data'')
           then (case JSON_parse E (field err ''data'') of
                   None \<Rightarrow> New_Error [message, err]
                 | Some json \<Rightarrow>
                     if truthy (field json ''error'')
                        \<and> convertible (field json ''error_description'')
                     then New_Error [field json ''error_description'', field json ''error'',
                                     field json ''error_uri'']
                     else New_Error [message, err])
           else New_Error [message, err])
    \<and> (\<forall>json s. truthy (field err ''statusCode'') \<and> truthy (field err ''data'')
           \<and> JSON_parse E (field err ''data'') = Some json \<and> truthy (field json ''error'')
           \<and> field json ''error_description'' = Str s
         \<longrightarrow> (\<exists>args. e = New_Error args \<and> Error_message args = Some s))"
  using createOAuthError_eq [OF assms(1), of E message] assms(2)
  by (auto split: option.splits)

theorem C8_createOAuthError_witness:
  "\<not> nullish demo_failure
   \<and> convertible (Str ''Failed to obtain access token'')
   \<and> field demo_failure ''statusCode'' = Number 400
   \<and> field demo_failure ''data'' = Str demo_payload
   \<and> JSON_parse demo_env (Str demo_payload)
       = Some (Object [(''error'', Str ''invalid_grant''),
                       (''error_description'', Str ''bad code'')])
   \<and> createOAuthError demo_env (Str ''Failed to obtain access token'') demo_failure
       = Inr (New_Error [Str ''bad code'', Str ''invalid_grant'', Undefined])
   \<and> Error_message [Str ''bad code'', Str ''invalid_grant'', Undefined] = Some ''bad code''
   \<and> createOAuthError demo_env (Str ''Failed to obtain access token'')
         (Object [(''statusCode'', Number 400), (''data'', Str ''<html>'')])
       = Inr (New_Error [Str ''Failed to obtain access token'',
                         Object [(''statusCode'', Number 400), (''data'', Str ''<html>'')]])"
proof -
  let ?m = "Str ''Failed to obtain access token''"
  let ?bad = "Object [(''statusCode'', Number 400), (''data'', Str ''<html>'')]"
  have a: "\<not> nullish demo_failure" and a': "\<not> nullish ?bad"
    by (simp_all add: nullish_def demo_failure_def)
  have m: "convertible ?m"
    by simp
  have b: "field demo_failure ''statusCode'' = Number 400"
    and c: "field demo_failure ''data'' = Str demo_payload"
    by (simp_all add: demo_failure_def own_prop_def)
  have d: "JSON_parse demo_env (Str demo_payload)
       = Some (Object [(''error'', Str ''invalid_grant''),
                       (''error_description'', Str ''bad code'')])"
    by simp
  have e: "createOAuthError demo_env ?m demo_failure
       = Inr (New_Error [Str ''bad code'', Str ''invalid_grant'', Undefined])"
    using C8_createOAuthError [OF a m, of demo_env]
    by (auto simp add: b c own_prop_def)
  have f: "Error_message [Str ''bad code'', Str ''invalid_grant'', Undefined] = Some ''bad code''"
    by simp
  have g: "createOAuthError demo_env ?m ?bad = Inr (New_Error [?m, ?bad])"
    using C8_createOAuthError [OF a' m, of demo_env]
    by (auto simp add: own_prop_def)
  show ?thesis
    by (intro conjI a m b c d e f g)
qed

text \<open>
  C8 as it is written fails where a field is there but falsy. A failure with
  \<^verbatim>\<open>statusCode\<close> 0 and the payload of the example carries a status code and a payload
  that parses as JSON with an error field; a failure with \<^verbatim>\<open>statusCode\<close> 400 and a
  payload whose \<^verbatim>\<open>error\<close> is the empty string does too. For both the result is the
  generic error, whose message is the message handed in and not \<^verbatim>\<open>'bad code'\<close>. So
  it is for a payload with an error field whose description is \<^verbatim>\<open>{toString: 1}\<close>:
  the conversion throws inside the \<^verbatim>\<open>try\<close>. And the method does not return for
  every argument: on an \<^verbatim>\<open>undefined\<close> failure it throws (\<^verbatim>\<open>authenticate\<close> never
  passes that), and so it does on a message that does not convert to a string.
\<close>

theorem C8_counterexample:
  "has_field (Object [(''statusCode'', Number 0), (''data'', Str demo_payload)]) ''statusCode''
   \<and> JSON_parse demo_env (Str demo_payload)
       = Some (Object [(''error'', Str ''invalid_grant''),
                       (''error_description'', Str ''bad code'')])
   \<and> createOAuthError demo_env (Str ''Failed to obtain access token'')
         (Object [(''statusCode'', Number 0), (''data'', Str demo_payload)])
       = Inr (New_Error [Str ''Failed to obtain access token'',
                         Object [(''statusCode'', Number 0), (''data'', Str demo_payload)]])
   \<and> JSON_parse demo_env (Str demo_payload_empty_error)
       = Some (Object [(''error'', Str []), (''error_description'', Str ''bad code'')])
   \<and> has_field (Object [(''error'', Str []), (''error_description'', Str ''bad code'')]) ''error''
   \<and> createOAuthError demo_env (Str ''Failed to obtain access token'')
         (Object [(''statusCode'', Number 400), (''data'', Str demo_payload_empty_error)])
       = Inr (New_Error [Str ''Failed to obtain access token'',
                         Object [(''statusCode'', Number 400),
                                 (''data'', Str demo_payload_empty_error)]])
   \<and> Error_message [Str ''Failed to obtain access token'',
                     Object [(''statusCode'', Number 400),
                             (''data'', Str demo_payload_empty_error)]]
       = Some ''Failed to obtain access token''
   \<and> JSON_parse demo_env (Str demo_payload_object_description)
       = Some (Object [(''error'', Str ''invalid_grant''),
                       (''error_description'', demo_unconvertible)])
   \<and> createOAuthError demo_env (Str ''Failed to obtain access token'')
         (Object [(''statusCode'', Number 400), (''data'', Str demo_payload_object_description)])
       = Inr (New_Error [Str ''Failed to obtain access token'',
                         Object [(''statusCode'', Number 400),
                                 (''data'', Str demo_payload_object_description)]])
   \<and> createOAuthError demo_env (Str ''Failed to obtain access token'') Undefined
       = Inl Thrown_TypeError
   \<and> createOAuthError demo_env demo_unconvertible
         (Object [(''statusCode'', Number 400), (''data'', Str ''<html>'')])
       = Inl Thrown_TypeError"
proof -
  let ?m = "Str ''Failed to obtain access token''"
  have z: "createOAuthError demo_env ?m
         (Object [(''statusCode'', Number 0), (''data'', Str demo_payload)])
       = Inr (New_Error [?m, Object [(''statusCode'', Number 0), (''data'', Str demo_payload)]])"
    by (simp add: createOAuthError_eq nullish_def own_prop_def)
  have e: "createOAuthError demo_env ?m
         (Object [(''statusCode'', Number 400), (''data'', Str demo_payload_empty_error)])
       = Inr (New_Error [?m, Object [(''statusCode'', Number 400),
                                     (''data'', Str demo_payload_empty_error)]])"
    by (simp add: createOAuthError_eq nullish_def own_prop_def)
  have o: "createOAuthError demo_env ?m
         (Object [(''statusCode'', Number 400), (''data'', Str demo_payload_object_description)])
       = Inr (New_Error [?m, Object [(''statusCode'', Number 400),
                                     (''data'', Str demo_payload_object_description)]])"
    by (simp add: createOAuthError_eq nullish_def own_prop_def)
  have n: "createOAuthError demo_env ?m Undefined = Inl Thrown_TypeError"
    by (simp add: createOAuthError_def prop_and_def)
  have u: "createOAuthError demo_env demo_unconvertible
         (Object [(''statusCode'', Number 400), (''data'', Str ''<html>'')])
       = Inl Thrown_TypeError"
    by (simp add: createOAuthError_eq nullish_def own_prop_def)
  show ?thesis
    using z e o n u by (simp add: has_field_def)
qed

section \<open>Authorization parameters\<close>

lemma constructed_strategy:
  assumes "GoogleAPIsStrategy options0 verify0 = Inr s"
  shows "name s = Str ''googleapis''" and "priv_scope s = Undefined"
    and "priv_passReqToCallback s = Undefined" and "credentials (oauth2Client s) = None"
proof -
  let ?options = "or_else (case options0 of Fn f \<Rightarrow> Undefined | Val v \<Rightarrow> v) (Object [])"
  have n: "\<not> nullish ?options"
    by simp
  obtain vf where s: "s = \<lparr> name = Str ''googleapis'', priv_verify = vf,
      oauth2Client = \<lparr> clientID = field ?options ''clientID'',
                       clientSecret = field ?options ''clientSecret'',
                       redirectURL = field ?options ''redirectURL'', credentials = None \<rparr>,
      priv_scope = Undefined, priv_passReqToCallback = Undefined \<rparr>"
    using assms
    by (auto simp add: GoogleAPIsStrategy_def Let_def read_prop_field [OF n]
        split: option.splits if_splits)
  show "name s = Str ''googleapis''" and "priv_scope s = Undefined"
    and "priv_passReqToCallback s = Undefined" and "credentials (oauth2Client s) = None"
    by (simp_all add: s)
qed

lemma demo_constructed:
  "GoogleAPIsStrategy (Val demo_options) (Some demo_verify) = Inr demo_strategy"
  by (simp add: GoogleAPIsStrategy_def demo_options_def or_else_def own_prop_def
      demo_strategy_def demo_client_def)

text \<open>
  C9. \<^verbatim>\<open>authorizationParams\<close> does what the specification says with the property
  \<^verbatim>\<open>_scope\<close> of the strategy: it is the fallback when the options of the call carry
  no scope. The constructor does not do its part: it reads \<^verbatim>\<open>clientID\<close>,
  \<^verbatim>\<open>clientSecret\<close> and \<^verbatim>\<open>redirectURL\<close> and never assigns \<^verbatim>\<open>_scope\<close>. A strategy
  constructed with \<^verbatim>\<open>scope: 'email'\<close> among its options has no default scope, and
  \<^verbatim>\<open>authorizationParams({})\<close> returns the empty object on it, where the
  specification has \<^verbatim>\<open>{scope: 'email'}\<close>. With the property set, the same call returns
  \<^verbatim>\<open>{scope: 'email'}\<close>; and a scope and an access type among the options of the call
  are taken as the specification says.
\<close>

theorem C9_constructor_drops_scope:
  "field demo_options ''scope'' = Str ''email''
   \<and> GoogleAPIsStrategy (Val demo_options) (Some demo_verify) = Inr demo_strategy
   \<and> priv_scope demo_strategy = Undefined
   \<and> authorizationParams demo_strategy (Object []) = Inr (Object [])
   \<and> authorizationParams (demo_strategy\<lparr> priv_scope := Str ''email'' \<rparr>) (Object [])
       = Inr (Object [(''scope'', Str ''email'')])
   \<and> authorizationParams demo_strategy
         (Object [(''scope'', Str ''a b''), (''accessType'', Str ''offline'')])
       = Inr (Object [(''scope'', Str ''a b''), (''access_type'', Str ''offline'')])"
proof -
  have a: "field demo_options ''scope'' = Str ''email''"
    by (simp add: demo_options_def own_prop_def)
  have b: "priv_scope demo_strategy = Undefined"
    by (simp add: demo_strategy_def)
  have c: "authorizationParams demo_strategy (Object []) = Inr (Object [])"
    by (simp add: authorizationParams_eq nullish_def or_else_def own_prop_def b)
  have d: "authorizationParams (demo_strategy\<lparr> priv_scope := Str ''email'' \<rparr>) (Object [])
       = Inr (Object [(''scope'', Str ''email'')])"
    by (simp add: authorizationParams_eq nullish_def or_else_def own_prop_def)
  have e: "authorizationParams demo_strategy
         (Object [(''scope'', Str ''a b''), (''accessType'', Str ''offline'')])
       = Inr (Object [(''scope'', Str ''a b''), (''access_type'', Str ''offline'')])"
    by (simp add: authorizationParams_eq nullish_def or_else_def own_prop_def)
  show ?thesis
    by (intro conjI a demo_constructed b c d e)
qed

section \<open>Request passthrough\<close>

lemma on_token_keeps:
  "priv_passReqToCallback (snd (on_token E req s x)) = priv_passReqToCallback s"
  "priv_verify (snd (on_token E req s x)) = priv_verify s"
  by (cases x; simp add: on_token_def Let_def split: sum.splits)+

lemma run_callbacks_Cons:
  "fst (run_callbacks k s (x # xs)) = fst (k s x) @ fst (run_callbacks k (snd (k s x)) xs)"
  "snd (run_callbacks k s (x # xs)) = snd (run_callbacks k (snd (k s x)) xs)"
  by (simp_all split: prod.splits)

lemma run_callbacks_keeps:
  "priv_passReqToCallback (snd (run_callbacks (on_token E req) s xs)) = priv_passReqToCallback s
   \<and> priv_verify (snd (run_callbacks (on_token E req) s xs)) = priv_verify s"
proof (induction xs arbitrary: s)
  case Nil
  show ?case by simp
next
  case (Cons x xs)
  show ?case
    using Cons.IH [of "snd (on_token E req s x)"] on_token_keeps [of E req s x]
    by (simp only: run_callbacks_Cons)
qed

lemma verify_args_cong:
  "priv_passReqToCallback s' = priv_passReqToCallback s \<Longrightarrow> priv_verify s' = priv_verify s \<Longrightarrow>
   verify_args s' req a r p = verify_args s req a r p"
  by (simp add: verify_args_def)

lemma verify_in_on_profile:
  assumes "Verify args \<in> set (on_profile s req a r x)"
  shows "\<exists>p. args = verify_args s req a r p"
proof -
  obtain err p where x: "x = (err, p)"
    by (cases x)
  have "Verify args \<in> set (filter is_verify_call (on_profile s req a r (err, p)))"
    using assms by (simp add: x)
  then show ?thesis
    by (auto simp add: on_profile_verify_calls split: if_splits)
qed

lemma verify_in_on_token:
  assumes "Verify args \<in> set (fst (on_token E req s x))"
  shows "\<exists>a r p. args = verify_args s req a r p"
proof -
  obtain err tokens where x: "x = (err, tokens)"
    by (cases x)
  show ?thesis
  proof (cases "truthy err \<or> nullish tokens")
    case True
    with assms show ?thesis
      by (auto simp add: x on_token_def nullish_def split: sum.splits if_splits)
  next
    case False
    with assms obtain y where
      "Verify args \<in> set (on_profile
          (s\<lparr> oauth2Client := (oauth2Client s)\<lparr> credentials := Some tokens \<rparr> \<rparr>) req
          (field tokens ''access_token'') (or_else (field tokens ''refresh_token'') Null) y)"
      by (auto simp add: x on_token_success)
    then show ?thesis
      using verify_in_on_profile by fastforce
  qed
qed

lemma verify_in_run_callbacks:
  assumes "Verify args \<in> set (fst (run_callbacks (on_token E req) s xs))"
  shows "\<exists>a r p. args = verify_args s req a r p"
  using assms
proof (induction xs arbitrary: s)
  case Nil
  then show ?case by simp
next
  case (Cons x xs)
  let ?s' = "snd (on_token E req s x)"
  from Cons.prems have "Verify args \<in> set (fst (on_token E req s x))
      \<or> Verify args \<in> set (fst (run_callbacks (on_token E req) ?s' xs))"
    by (simp only: run_callbacks_Cons set_append Un_iff)
  then show ?case
  proof
    assume "Verify args \<in> set (fst (on_token E req s x))"
    then show ?thesis by (rule verify_in_on_token)
  next
    assume "Verify args \<in> set (fst (run_callbacks (on_token E req) ?s' xs))"
    then obtain a r p where "args = verify_args ?s' req a r p"
      using Cons.IH by blast
    then show ?thesis
      using verify_args_cong [OF on_token_keeps(1) on_token_keeps(2), of E req s x] by metis
  qed
qed

lemma branches:
  obtains (error) "truthy (field (query req) ''error'')"
  | (code) "\<not> truthy (field (query req) ''error'')" "truthy (field (query req) ''code'')"
  | (redirect) "\<not> truthy (field (query req) ''error'')" "\<not> truthy (field (query req) ''code'')"
  by blast

lemma verify_in_authenticate:
  assumes "Verify args \<in> set (fst (authenticate E s req options))"
  shows "\<exists>a r p. args = verify_args s req a r p"
proof (cases rule: branches [of req])
  case error
  with assms show ?thesis
    by (simp add: authenticate_error_branch split: if_splits)
next
  case code
  with assms have "Verify args \<in> set (fst (run_callbacks (on_token E req) s
      (getToken E (oauth2Client s) (field (query req) ''code''))))"
    by (auto simp add: authenticate_code_branch split: prod.splits)
  then show ?thesis
    by (rule verify_in_run_callbacks)
next
  case redirect
  with assms show ?thesis
    using authenticate_redirect_branch [OF redirect, of s options E] by auto
qed

lemma authenticate_keeps:
  "priv_passReqToCallback (snd (authenticate E s req options)) = priv_passReqToCallback s"
proof (cases rule: branches [of req])
  case error
  then show ?thesis
    by (simp add: authenticate_error_branch)
next
  case code
  then show ?thesis
    using run_callbacks_keeps [of E req s]
    by (simp add: authenticate_code_branch split: prod.splits) (metis snd_conv)
next
  case redirect
  then show ?thesis
    using authenticate_redirect_branch [OF redirect, of s options E] by auto
qed

lemma after_invocations_keeps:
  "priv_passReqToCallback (after_invocations s history) = priv_passReqToCallback s"
proof (induction history arbitrary: s)
  case Nil
  show ?case by simp
next
  case (Cons i history)
  obtain E req options where i: "i = (E, req, options)"
    by (cases i)
  show ?case
    by (simp add: i Cons.IH authenticate_keeps)
qed

text \<open>
  C10. Take a strategy that the constructor returned, whatever its arguments, and any
  history of invocations of \<^verbatim>\<open>authenticate\<close> on it since. Its \<^verbatim>\<open>_passReqToCallback\<close>
  is \<^verbatim>\<open>undefined\<close>: the constructor does not assign it and \<^verbatim>\<open>authenticate\<close> leaves it
  as it is (the other methods, \<^verbatim>\<open>authorizationParams\<close>, \<^verbatim>\<open>parseErrorResponse\<close> and
  \<^verbatim>\<open>_createOAuthError\<close>, assign nothing on the strategy: they only return a value).
  So in the next invocation every call of the verify callback has the
  arguments of the branch without passthrough,
  \<^verbatim>\<open>(accessToken, refreshToken, profile, done)\<close> or
  \<^verbatim>\<open>(accessToken, refreshToken, {}, profile, done)\<close>: the request is not among them.
\<close>

theorem C10_no_request_passthrough:
  assumes "GoogleAPIsStrategy options0 verify0 = Inr s0"
  shows "priv_passReqToCallback (after_invocations s0 history) = Undefined
    \<and> priv_passReqToCallback
        (snd (authenticate E (after_invocations s0 history) req options)) = Undefined
    \<and> (\<forall>args. Verify args \<in> set (fst (authenticate E (after_invocations s0 history) req options))
          \<longrightarrow> (\<exists>a r p. args = [ArgVal a, ArgVal r, ArgVal p, ArgDone]
                       \<or> args = [ArgVal a, ArgVal r, ArgVal (Object []), ArgVal p, ArgDone]))"
proof -
  let ?s = "after_invocations s0 history"
  have u: "priv_passReqToCallback ?s = Undefined"
    using constructed_strategy(3) [OF assms] by (simp add: after_invocations_keeps)
  have v: "\<exists>a r p. args = [ArgVal a, ArgVal r, ArgVal p, ArgDone]
                  \<or> args = [ArgVal a, ArgVal r, ArgVal (Object []), ArgVal p, ArgDone]"
    if h: "Verify args \<in> set (fst (authenticate E ?s req options))" for args
  proof -
    obtain a r p where "args = verify_args ?s req a r p"
      using verify_in_authenticate [OF h] by blast
    then show ?thesis
      using u by (auto simp add: verify_args_def Let_def)
  qed
  show ?thesis
    using u v by (simp add: authenticate_keeps)
qed

theorem C10_no_request_passthrough_witness:
  "GoogleAPIsStrategy (Val demo_options) (Some demo_verify) = Inr demo_strategy
   \<and> priv_passReqToCallback
       (after_invocations demo_strategy
          [(demo_env, demo_request [(''code'', Str ''abc123'')], Undefined)]) = Undefined
   \<and> filter is_verify_call
       (fst (authenticate demo_env demo_strategy (demo_request [(''code'', Str ''abc123'')])
               Undefined))
     = [Verify [ArgVal (Str ''AT1''), ArgVal Null, ArgVal demo_profile, ArgDone]]"
proof -
  have a: "priv_passReqToCallback
       (after_invocations demo_strategy
          [(demo_env, demo_request [(''code'', Str ''abc123'')], Undefined)]) = Undefined"
    using C10_no_request_passthrough [OF demo_constructed,
        of "[(demo_env, demo_request [(''code'', Str ''abc123'')], Undefined)]"]
    by simp
  have b: "filter is_verify_call
       (fst (authenticate demo_env demo_strategy (demo_request [(''code'', Str ''abc123'')])
               Undefined))
     = [Verify [ArgVal (Str ''AT1''), ArgVal Null, ArgVal demo_profile, ArgDone]]"
    by (simp add: authenticate_token_success [where err = Null
          and tokens = "Object [(''access_token'', Str ''AT1'')]"]
        demo_request_def own_prop_def demo_env_def nullish_def on_profile_verify_calls
        verify_args_def or_else_def demo_strategy_def demo_verify_def)
  show ?thesis
    by (intro conjI a b demo_constructed)
qed

section \<open>One terminal action\<close>

lemma verified_terminal [simp]:
  "length (filter is_terminal (concat (map verified ds))) = length ds"
  "length (filter is_outcome (concat (map verified ds))) = length ds"
  "filter is_uncaught (concat (map verified ds)) = []"
  by (induction ds) auto

lemma on_profile_once:
  assumes "calls_done_once (fn_body (priv_verify self) (verify_args self req a r (snd x)))"
  shows "length (filter is_terminal (on_profile self req a r x)) = 1"
    and "length (filter is_outcome (on_profile self req a r x)) = 1"
    and "filter is_uncaught (on_profile self req a r x) = []"
proof -
  obtain err p where x: "x = (err, p)"
    by (cases x)
  obtain during c later where
    run: "fn_body (priv_verify self) (verify_args self req a r p) = Run during c later"
    by (cases "fn_body (priv_verify self) (verify_args self req a r p)")
  have "length (filter is_terminal (on_profile self req a r x)) = 1
      \<and> length (filter is_outcome (on_profile self req a r x)) = 1
      \<and> filter is_uncaught (on_profile self req a r x) = []"
  proof (cases c)
    case Returns
    with assms run show ?thesis
      by (simp add: x on_profile_def Let_def)
  next
    case (Throws ex)
    with assms run show ?thesis
      by (simp add: x on_profile_def Let_def)
  qed
  then show "length (filter is_terminal (on_profile self req a r x)) = 1"
    and "length (filter is_outcome (on_profile self req a r x)) = 1"
    and "filter is_uncaught (on_profile self req a r x) = []"
    by simp_all
qed

text \<open>
  C1, as the program has it. Let the collaborators answer once each: \<^verbatim>\<open>getToken\<close> with
  a failure or with a token set, the profile fetch with a failure or a profile. Let the
  verify callback either call \<^verbatim>\<open>done\<close> exactly once and return, or throw before any
  call of \<^verbatim>\<open>done\<close>. Let the \<^verbatim>\<open>error_description\<close> of the query, if there is one,
  convert to a string. Then every invocation of \<^verbatim>\<open>authenticate\<close> makes exactly one
  terminal action among \<^verbatim>\<open>success\<close>, \<^verbatim>\<open>fail\<close>, \<^verbatim>\<open>error\<close> and \<^verbatim>\<open>redirect\<close>, and no
  exception leaves it. The action is the redirect, with no \<^verbatim>\<open>success\<close>, \<^verbatim>\<open>fail\<close> or
  \<^verbatim>\<open>error\<close>, exactly when the query has neither a truthy \<^verbatim>\<open>error\<close> nor a truthy
  \<^verbatim>\<open>code\<close>; otherwise it is one of \<^verbatim>\<open>success\<close>, \<^verbatim>\<open>fail\<close> and \<^verbatim>\<open>error\<close>.
\<close>

theorem C1_one_terminal_action:
  assumes "\<forall>client code. \<exists>err tokens. getToken E client code = [(err, tokens)]
              \<and> (truthy err \<or> \<not> nullish tokens)"
    and "\<forall>client. \<exists>perr profile. userinfo_get E client = [(perr, profile)]"
    and "\<forall>args. calls_done_once (fn_body (priv_verify self) args)"
    and "convertible (field (query req) ''error_description'')"
  shows "length (filter is_terminal (fst (authenticate E self req options))) = 1
    \<and> filter is_uncaught (fst (authenticate E self req options)) = []
    \<and> length (filter is_outcome (fst (authenticate E self req options))) =
        (if truthy (field (query req) ''error'') \<or> truthy (field (query req) ''code'')
         then 1 else 0)"
proof (cases rule: branches [of req])
  case error
  then show ?thesis
    using assms(4) by (simp add: authenticate_error_branch)
next
  case redirect
  then show ?thesis
    using authenticate_redirect_branch [OF redirect, of self options E] by auto
next
  case code
  obtain err tokens where
    g: "getToken E (oauth2Client self) (field (query req) ''code'') = [(err, tokens)]"
    and t: "truthy err \<or> \<not> nullish tokens"
    using assms(1) by blast
  show ?thesis
  proof (cases "truthy err")
    case True
    then show ?thesis
      using authenticate_token_failure [OF code g True, of options] code by auto
  next
    case False
    with t have n: "\<not> nullish tokens"
      by simp
    let ?client = "(oauth2Client self)\<lparr> credentials := Some tokens \<rparr>"
    let ?self = "self\<lparr> oauth2Client := ?client \<rparr>"
    obtain perr profile where u: "userinfo_get E ?client = [(perr, profile)]"
      using assms(2) by blast
    have v: "calls_done_once (fn_body (priv_verify ?self) (verify_args ?self req a r p))"
      for a r p
      using assms(3) by simp
    show ?thesis
      using code on_profile_once [OF v]
      by (simp add: authenticate_token_success [OF code g False n] u)
  qed
qed

theorem C1_one_terminal_action_witness:
  "(\<forall>client code. \<exists>err tokens. getToken demo_env client code = [(err, tokens)]
              \<and> (truthy err \<or> \<not> nullish tokens))
   \<and> (\<forall>client. \<exists>perr profile. userinfo_get demo_env client = [(perr, profile)])
   \<and> (\<forall>args. calls_done_once (fn_body (priv_verify demo_strategy) args))
   \<and> convertible (field (query (demo_request [(''code'', Str ''abc123'')])) ''error_description'')
   \<and> length (filter is_terminal
        (fst (authenticate demo_env demo_strategy (demo_request [(''code'', Str ''abc123'')])
                Undefined))) = 1
   \<and> filter is_outcome
        (fst (authenticate demo_env demo_strategy (demo_request [(''code'', Str ''abc123'')])
                Undefined)) = [Success demo_user Undefined]"
proof -
  let ?req = "demo_request [(''code'', Str ''abc123'')]"
  have a: "\<forall>client code. \<exists>err tokens. getToken demo_env client code = [(err, tokens)]
              \<and> (truthy err \<or> \<not> nullish tokens)"
    by (simp add: demo_env_def nullish_def)
  have b: "\<forall>client. \<exists>perr profile. userinfo_get demo_env client = [(perr, profile)]"
    by (simp add: demo_env_def)
  have c: "\<forall>args. calls_done_once (fn_body (priv_verify demo_strategy) args)"
    by (simp add: demo_strategy_def demo_verify_def)
  have k: "convertible (field (query ?req) ''error_description'')"
    by (simp add: demo_request_def own_prop_def)
  have d: "length (filter is_terminal (fst (authenticate demo_env demo_strategy ?req Undefined)))
      = 1"
    using C1_one_terminal_action [OF a b c k, of Undefined] by simp
  have e: "filter is_outcome (fst (authenticate demo_env demo_strategy ?req Undefined))
      = [Success demo_user Undefined]"
    by (simp add: authenticate_token_success [where err = Null
          and tokens = "Object [(''access_token'', Str ''AT1'')]"]
        demo_request_def own_prop_def demo_env_def nullish_def on_profile_def
        verify_args_def or_else_def demo_strategy_def demo_verify_def demo_user_def)
  show ?thesis
    by (intro conjI a b c k d e)
qed

text \<open>
  C1 as it is written fails in several ways. On the initial leg the only action is a
  redirect: there is no outcome among \<^verbatim>\<open>success\<close>, \<^verbatim>\<open>fail\<close> and \<^verbatim>\<open>error\<close>. When the
  token exchange never answers, nothing follows the call of \<^verbatim>\<open>getToken\<close>; when it
  reports success with no token set, the callback throws; when the profile fetch never
  answers, nothing follows it. When the verify callback calls \<^verbatim>\<open>done(null, user)\<close>
  and then throws, \<^verbatim>\<open>success\<close> is followed by \<^verbatim>\<open>error\<close>: two outcomes. And when the
  query reports an error with a description that does not convert to a string,
  \<^verbatim>\<open>new Error\<close> throws out of \<^verbatim>\<open>authenticate\<close> and there is no action at all.
\<close>

theorem C1_counterexample:
  "filter is_outcome (fst (authenticate demo_env demo_strategy \<lparr> query = Undefined \<rparr> Undefined))
     = []
   \<and> fst (authenticate demo_env_silent demo_strategy (demo_request [(''code'', Str ''abc123'')])
           Undefined)
     = [GetToken (Str ''abc123'')]
   \<and> fst (authenticate demo_env_no_tokens demo_strategy
           (demo_request [(''code'', Str ''abc123'')]) Undefined)
     = [GetToken (Str ''abc123''), Uncaught Thrown_TypeError]
   \<and> filter is_terminal
        (fst (authenticate demo_env_no_profile demo_strategy
                (demo_request [(''code'', Str ''abc123'')]) Undefined))
     = []
   \<and> fn_body demo_verify_done_then_throw
        [ArgVal (Str ''AT1''), ArgVal Null, ArgVal demo_profile, ArgDone]
     = Run [(Null, demo_user, Undefined)] (Throws (Str ''boom'')) []
   \<and> filter is_outcome
        (fst (authenticate demo_env (demo_strategy\<lparr> priv_verify := demo_verify_done_then_throw \<rparr>)
                (demo_request [(''code'', Str ''abc123'')]) Undefined))
     = [Success demo_user Undefined, Error (Str ''boom'')]
   \<and> fst (authenticate demo_env demo_strategy
            (demo_request [(''error'', Str ''server_error''),
                           (''error_description'', demo_unconvertible)]) Undefined)
     = [Uncaught Thrown_TypeError]"
proof -
  let ?req = "demo_request [(''code'', Str ''abc123'')]"
  have q: "\<not> truthy (field (query ?req) ''error'')" "truthy (field (query ?req) ''code'')"
    "field (query ?req) ''code'' = Str ''abc123''"
    by (simp_all add: demo_request_def own_prop_def)
  have a: "filter is_outcome
      (fst (authenticate demo_env demo_strategy \<lparr> query = Undefined \<rparr> Undefined)) = []"
    using authenticate_redirect_branch [of "\<lparr> query = Undefined \<rparr>" demo_strategy Undefined demo_env]
    by auto
  have b: "fst (authenticate demo_env_silent demo_strategy ?req Undefined)
     = [GetToken (Str ''abc123'')]"
    by (simp add: authenticate_code_branch [OF q(1,2)] q(3) demo_env_silent_def)
  have b': "fst (authenticate demo_env_no_tokens demo_strategy ?req Undefined)
     = [GetToken (Str ''abc123''), Uncaught Thrown_TypeError]"
    by (simp add: authenticate_code_branch [OF q(1,2)] q(3) demo_env_no_tokens_def on_token_def)
  have b'': "filter is_terminal
      (fst (authenticate demo_env_no_profile demo_strategy ?req Undefined)) = []"
    by (simp add: authenticate_token_success [OF q(1,2), where err = Null
          and tokens = "Object [(''access_token'', Str ''AT1'')]"]
        demo_env_no_profile_def demo_env_def nullish_def)
  have c: "fn_body demo_verify_done_then_throw
        [ArgVal (Str ''AT1''), ArgVal Null, ArgVal demo_profile, ArgDone]
     = Run [(Null, demo_user, Undefined)] (Throws (Str ''boom'')) []"
    by (simp add: demo_verify_done_then_throw_def)
  have d: "filter is_outcome
        (fst (authenticate demo_env (demo_strategy\<lparr> priv_verify := demo_verify_done_then_throw \<rparr>)
                ?req Undefined))
     = [Success demo_user Undefined, Error (Str ''boom'')]"
    by (simp add: authenticate_token_success [OF q(1,2), where err = Null
          and tokens = "Object [(''access_token'', Str ''AT1'')]"]
        demo_env_def nullish_def on_profile_def verify_args_def or_else_def own_prop_def
        demo_strategy_def demo_verify_done_then_throw_def demo_user_def)
  have e: "fst (authenticate demo_env demo_strategy
            (demo_request [(''error'', Str ''server_error''),
                           (''error_description'', demo_unconvertible)]) Undefined)
     = [Uncaught Thrown_TypeError]"
    by (simp add: authenticate_error_branch demo_request_def own_prop_def)
  show ?thesis
    by (intro conjI a b b' b'' c d e)
qed

end
